theory Spec2Isabelle
  imports Complex_Main
begin

section \<open>The DOM as the components see it\<close>

text \<open>
  The four custom elements of the theme (sticky add-to-cart bar, header, video player,
  product description block) only read and write attributes, classes and a few
  properties of DOM nodes, and register callbacks with the browser. Every method is
  modelled as a function from the element's state to its new state; what the browser
  answers (a query result, a rectangle, a media query, a promise's outcome) is an
  argument of the function.
\<close>

type_synonym node = nat

text \<open>
  A string-valued property that may be absent (\<open>undefined\<close> or \<open>null\<close>) is a
  \<open>string option\<close>. JavaScript's truthiness of such a value, and \<open>a || d\<close>:
\<close>

definition truthy :: "string option \<Rightarrow> bool" where
  "truthy v = (case v of None \<Rightarrow> False | Some s \<Rightarrow> s \<noteq> [])"

definition or_else :: "string option \<Rightarrow> string \<Rightarrow> string" where
  "or_else v d = (case v of None \<Rightarrow> d | Some s \<Rightarrow> if s = [] then d else s)"

text \<open>\<open>DOMTokenList\<close>: an ordered set of class names.\<close>

definition classList_add :: "string \<Rightarrow> string list \<Rightarrow> string list" where
  "classList_add c cs = (if c \<in> set cs then cs else cs @ [c])"

definition classList_remove :: "string \<Rightarrow> string list \<Rightarrow> string list" where
  "classList_remove c cs = filter (\<lambda>x. x \<noteq> c) cs"

text \<open>
  An \<open>IntersectionObserver\<close> object: the serial number of the \<open>new\<close> that made it,
  its options, and the nodes it observes (\<open>Self\<close> is the custom element itself).
\<close>

datatype target = Self | Elem node

record intersection_observer =
  io_serial :: nat
  io_rootMargin :: string
  io_threshold :: "real list"
  io_targets :: "target list"

record IntersectionObserverEntry =
  isIntersecting :: bool
  intersectionRatio :: real
  boundingClientRect_bottom :: real

text \<open>
  What every custom element carries: its attributes (\<open>this.dataset.fooBar\<close> is the
  attribute \<open>data-foo-bar\<close>), its class list, the messages its methods wrote to the
  console, and the number of observer objects constructed so far.
\<close>

record html_element =
  attributes :: "string \<rightharpoonup> string"
  classList :: "string list"
  console :: "string list"
  created :: nat

definition dataset :: "'a html_element_scheme \<Rightarrow> string \<Rightarrow> string option" where
  "dataset this k = attributes this (''data-'' @ k)"

definition dataset_set :: "string \<Rightarrow> string \<Rightarrow> 'a html_element_scheme \<Rightarrow> 'a html_element_scheme" where
  "dataset_set k v this = this\<lparr>attributes := (attributes this)((''data-'' @ k) \<mapsto> v)\<rparr>"

definition console_warn :: "string \<Rightarrow> 'a html_element_scheme \<Rightarrow> 'a html_element_scheme" where
  "console_warn msg this = this\<lparr>console := console this @ [msg]\<rparr>"

section \<open>Sticky add-to-cart bar (class StickyATC)\<close>

text \<open>
  \<open>frames\<close> are the handles of the animation-frame requests that are pending, each
  for \<open>_attachObserver\<close>; \<open>frameSerial\<close> is the handle the next
  \<open>requestAnimationFrame\<close> returns.
\<close>

record StickyATC = html_element +
  targetSelector :: string
  targetNode :: "node option"
  observer :: "intersection_observer option"
  retryFrame :: "nat option"
  retryCount :: nat
  frames :: "nat list"
  frameSerial :: nat

definition StickyATC_constructor :: "(string \<rightharpoonup> string) \<Rightarrow> string list \<Rightarrow> StickyATC" where
  "StickyATC_constructor attrs classes =
     \<lparr> attributes = attrs, classList = classes, console = [], created = 0,
       targetSelector = ''.product-form-buttons'',
       targetNode = None, observer = None, retryFrame = None, retryCount = 0,
       frames = [], frameSerial = 1 \<rparr>"

definition requestAnimationFrame :: "StickyATC \<Rightarrow> StickyATC" where
  "requestAnimationFrame this =
     this\<lparr> retryFrame := Some (frameSerial this),
           frames := frames this @ [frameSerial this],
           frameSerial := frameSerial this + 1 \<rparr>"

definition StickyATC_attachObserver :: "(string \<Rightarrow> node option) \<Rightarrow> StickyATC \<Rightarrow> StickyATC" where
  "StickyATC_attachObserver querySelector this0 =
     (let this = this0\<lparr>targetNode := querySelector (targetSelector this0)\<rparr> in
      case targetNode this of
        None \<Rightarrow>
          if retryCount this < 10 then
            requestAnimationFrame (this\<lparr>retryCount := retryCount this + 1\<rparr>)
          else
            (console_warn (''[sticky-atc] Target '' @ [CHR 0x22] @ targetSelector this
                            @ [CHR 0x22] @ '' not found.'') this)
              \<lparr>classList := classList_add ''is-visible'' (classList this)\<rparr>
      | Some n \<Rightarrow>
          this\<lparr> retryCount := 0,
                observer := Some \<lparr> io_serial = created this, io_rootMargin = ''0px'',
                                   io_threshold = [0, 0.1, 0.25, 0.5, 0.75, 1],
                                   io_targets = [Elem n] \<rparr>,
                created := created this + 1 \<rparr>)"

definition StickyATC_connectedCallback :: "(string \<Rightarrow> node option) \<Rightarrow> StickyATC \<Rightarrow> StickyATC" where
  "StickyATC_connectedCallback querySelector this =
     StickyATC_attachObserver querySelector
       (this\<lparr>targetSelector := or_else (dataset this ''target-selector'') ''.product-form-buttons''\<rparr>)"

definition StickyATC_disconnectedCallback :: "StickyATC \<Rightarrow> StickyATC" where
  "StickyATC_disconnectedCallback this0 =
     (let this =
        (case (observer this0, targetNode this0) of
           (Some ob, Some n) \<Rightarrow>
             this0\<lparr>observer := Some (ob\<lparr>io_targets := removeAll (Elem n) (io_targets ob)\<rparr>)\<rparr>
         | _ \<Rightarrow> this0) in
      case retryFrame this of
        Some h \<Rightarrow> this\<lparr>frames := removeAll h (frames this), retryFrame := None\<rparr>
      | None \<Rightarrow> this)"

text \<open>
  The browser runs the oldest pending animation-frame callback, which is
  \<open>_attachObserver\<close>; \<open>StickyATC_frames n\<close> lets \<open>n\<close> animation frames pass.
\<close>

definition StickyATC_animationFrame :: "(string \<Rightarrow> node option) \<Rightarrow> StickyATC \<Rightarrow> StickyATC" where
  "StickyATC_animationFrame querySelector this =
     (case frames this of
        [] \<Rightarrow> this
      | h # hs \<Rightarrow> StickyATC_attachObserver querySelector (this\<lparr>frames := hs\<rparr>))"

fun StickyATC_frames :: "nat \<Rightarrow> (string \<Rightarrow> node option) \<Rightarrow> StickyATC \<Rightarrow> StickyATC" where
  "StickyATC_frames 0 querySelector this = this"
| "StickyATC_frames (Suc n) querySelector this =
     StickyATC_frames n querySelector (StickyATC_animationFrame querySelector this)"

fun StickyATC_handleIntersection :: "IntersectionObserverEntry list \<Rightarrow> StickyATC \<Rightarrow> StickyATC" where
  "StickyATC_handleIntersection [] this = this"
| "StickyATC_handleIntersection (entry # entries) this =
     (if intersectionRatio entry = 0 then
        this\<lparr>classList := classList_add ''is-visible'' (classList this)\<rparr>
      else if intersectionRatio entry \<ge> 0.75 then
        this\<lparr>classList := classList_remove ''is-visible'' (classList this)\<rparr>
      else StickyATC_handleIntersection entries this)"

text \<open>Concrete inputs: no target in the document, a bar fresh from its constructor, and three
  observer entries (target fully visible, fully gone and above the viewport, half visible).\<close>

definition no_document :: "string \<Rightarrow> node option" where
  "no_document sel = None"

definition fresh_bar :: StickyATC where
  "fresh_bar = StickyATC_constructor Map.empty []"

definition entry_full :: IntersectionObserverEntry where
  "entry_full = \<lparr> isIntersecting = True, intersectionRatio = 1, boundingClientRect_bottom = 300 \<rparr>"

definition entry_gone :: IntersectionObserverEntry where
  "entry_gone = \<lparr> isIntersecting = False, intersectionRatio = 0, boundingClientRect_bottom = -20 \<rparr>"

definition entry_half :: IntersectionObserverEntry where
  "entry_half = \<lparr> isIntersecting = True, intersectionRatio = 0.5, boundingClientRect_bottom = 40 \<rparr>"

section \<open>Anchor-tracking sticky bar (class StickyAtcElement)\<close>

record HTMLAnchorElement =
  href :: string
  link_hidden :: bool

record variant_target =
  textContent :: string
  hidden :: bool

record HTMLImageElement =
  img_src :: string
  srcset :: string
  sizes :: string
  alt :: string
  loading :: string

text \<open>
  The fields are the references \<open>connectedCallback\<close> resolves: the enclosing section,
  the title link, the variant text node, the media link and its image; \<open>hidden\<close> and
  \<open>link_hidden\<close> say whether the node carries the \<open>hidden\<close> attribute.
\<close>

record StickyAtcElement = html_element +
  section_el :: "node option"
  productId :: string
  titleLink :: "HTMLAnchorElement option"
  variantTarget :: "variant_target option"
  mediaLink :: "HTMLAnchorElement option"
  mediaImage :: "HTMLImageElement option"
  anchorElement :: "node option"
  intersectionObserver :: "intersection_observer option"

text \<open>
  What the page answers when the element asks: the node matching
  \<open>[data-sticky-atc-anchor]\<close> inside the section, the bottom edge of a node's bounding
  rectangle, and the \<open>URL\<close> API (\<open>url_with_width src w\<close> is \<open>src\<close> parsed as a URL
  with the search parameter \<open>width\<close> set to \<open>w\<close>, or \<open>None\<close> when the constructor
  throws).
\<close>

record section_dom =
  anchor :: "node option"
  rect_bottom :: "node \<Rightarrow> real"
  url_with_width :: "string \<Rightarrow> nat \<Rightarrow> string option"

text \<open>The payload of a \<open>variant:update\<close> event.\<close>

datatype js_id = IdUndefined | IdNull | IdNumber int | IdString string

record newProduct_t =
  product_id :: js_id
  product_url :: "string option"

record variant_data =
  newProduct :: "newProduct_t option"
  data_productId :: js_id

record preview_image_t =
  image_src :: "string option"
  image_alt :: "string option"

record featured_media_t =
  preview_image :: "preview_image_t option"

record VariantResource =
  resource_url :: "string option"
  resource_title :: "string option"
  featured_media :: "featured_media_t option"

record event_detail =
  resource :: "VariantResource option"
  data :: "variant_data option"

record VariantUpdateEvent =
  detail :: "event_detail option"

fun decimal :: "nat \<Rightarrow> string" where
  "decimal n = (if n < 10 then [''0123456789'' ! n]
                else decimal (n div 10) @ [''0123456789'' ! (n mod 10)])"

declare decimal.simps [simp del]

text \<open>\<open>x?.toString()\<close>, \<open>a ?? b\<close> and \<open>a || b\<close>.\<close>

definition js_toString :: "js_id \<Rightarrow> string option" where
  "js_toString x =
     (case x of
        IdUndefined \<Rightarrow> None
      | IdNull \<Rightarrow> None
      | IdNumber n \<Rightarrow> Some (if n < 0 then CHR ''-'' # decimal (nat (- n)) else decimal (nat n))
      | IdString s \<Rightarrow> Some s)"

definition coalesce :: "js_id \<Rightarrow> js_id \<Rightarrow> js_id" where
  "coalesce a b = (case a of IdUndefined \<Rightarrow> b | IdNull \<Rightarrow> b | _ \<Rightarrow> a)"

definition js_or :: "string option \<Rightarrow> string option \<Rightarrow> string option" where
  "js_or a b = (if truthy a then a else b)"

definition StickyAtcElement_getAnchor :: "section_dom \<Rightarrow> StickyAtcElement \<Rightarrow> node option" where
  "StickyAtcElement_getAnchor page this =
     (case section_el this of None \<Rightarrow> None | Some sec \<Rightarrow> anchor page)"

definition StickyAtcElement_setVisibility :: "bool \<Rightarrow> StickyAtcElement \<Rightarrow> StickyAtcElement" where
  "StickyAtcElement_setVisibility shouldShow this =
     (let currentState = (attributes this ''aria-hidden'' \<noteq> Some ''false'') in
      if shouldShow = (\<not> currentState) then this
      else dataset_set ''visible'' (if shouldShow then ''true'' else ''false'')
             (this\<lparr>attributes := (attributes this)
                (''aria-hidden'' \<mapsto> (if shouldShow then ''false'' else ''true''))\<rparr>))"

definition StickyAtcElement_createIntersectionObserver ::
    "section_dom \<Rightarrow> node \<Rightarrow> StickyAtcElement \<Rightarrow> StickyAtcElement" where
  "StickyAtcElement_createIntersectionObserver page a this =
     (case intersectionObserver this of
        Some ob \<Rightarrow> this
      | None \<Rightarrow>
          StickyAtcElement_setVisibility (rect_bottom page a \<le> 0)
            (this\<lparr> intersectionObserver :=
                     Some \<lparr> io_serial = created this, io_rootMargin = ''0px'',
                            io_threshold = [0], io_targets = [Elem a] \<rparr>,
                   created := created this + 1,
                   anchorElement := Some a \<rparr>))"

definition StickyAtcElement_resetIntersectionObserver ::
    "section_dom \<Rightarrow> node \<Rightarrow> StickyAtcElement \<Rightarrow> StickyAtcElement" where
  "StickyAtcElement_resetIntersectionObserver page a this =
     StickyAtcElement_createIntersectionObserver page a (this\<lparr>intersectionObserver := None\<rparr>)"

definition StickyAtcElement_handleAnchorIntersect ::
    "IntersectionObserverEntry list \<Rightarrow> StickyAtcElement \<Rightarrow> StickyAtcElement" where
  "StickyAtcElement_handleAnchorIntersect entries this =
     (case entries of
        [] \<Rightarrow> this
      | entry # others \<Rightarrow>
          StickyAtcElement_setVisibility
            (\<not> isIntersecting entry \<and> boundingClientRect_bottom entry \<le> 0) this)"

definition StickyAtcElement_toggleVariantVisibility :: "bool \<Rightarrow> StickyAtcElement \<Rightarrow> StickyAtcElement" where
  "StickyAtcElement_toggleVariantVisibility visible this =
     (case variantTarget this of
        None \<Rightarrow> this
      | Some t \<Rightarrow>
          if visible then this\<lparr>variantTarget := Some (t\<lparr>hidden := False\<rparr>)\<rparr>
          else if \<not> hidden t then this\<lparr>variantTarget := Some (t\<lparr>hidden := True\<rparr>)\<rparr>
          else this)"

definition StickyAtcElement_updateVariantTitle :: "string \<Rightarrow> StickyAtcElement \<Rightarrow> StickyAtcElement" where
  "StickyAtcElement_updateVariantTitle title this0 =
     (case variantTarget this0 of
        None \<Rightarrow> this0
      | Some t0 \<Rightarrow>
          let hasTitle = (title \<noteq> [] \<and> title \<noteq> ''Default Title'');
              this = StickyAtcElement_toggleVariantVisibility hasTitle this0
          in case variantTarget this of
               None \<Rightarrow> this
             | Some t \<Rightarrow>
                 this\<lparr>variantTarget := Some (t\<lparr>textContent := (if hasTitle then title else [])\<rparr>)\<rparr>)"

definition buildSrc :: "section_dom \<Rightarrow> string \<Rightarrow> nat \<Rightarrow> string" where
  "buildSrc page previewSrc width =
     (case url_with_width page previewSrc width of
        Some u \<Rightarrow> u
      | None \<Rightarrow>
          previewSrc @ (if CHR ''?'' \<in> set previewSrc then ''&'' else ''?'')
            @ ''width='' @ decimal width)"

fun join_comma :: "string list \<Rightarrow> string" where
  "join_comma [] = []"
| "join_comma [x] = x"
| "join_comma (x # y # ys) = x @ '', '' @ join_comma (y # ys)"

definition StickyAtcElement_updateMedia ::
    "section_dom \<Rightarrow> VariantResource \<Rightarrow> StickyAtcElement \<Rightarrow> StickyAtcElement" where
  "StickyAtcElement_updateMedia page variant this =
     (case mediaLink this of
        None \<Rightarrow> this
      | Some link \<Rightarrow>
          let previewImage = (case featured_media variant of
                                None \<Rightarrow> None | Some fm \<Rightarrow> preview_image fm);
              previewSrc = (case previewImage of None \<Rightarrow> None | Some im \<Rightarrow> image_src im)
          in if \<not> truthy previewSrc then this\<lparr>mediaLink := Some (link\<lparr>link_hidden := True\<rparr>)\<rparr>
             else
               let src0 = or_else previewSrc [];
                   image = (case mediaImage this of
                              Some im \<Rightarrow> im
                            | None \<Rightarrow> \<lparr> img_src = [], srcset = [], sizes = [], alt = [],
                                        loading = ''lazy'' \<rparr>);
                   widths = [80, 120, 160]
               in this\<lparr> mediaLink := Some (link\<lparr>link_hidden := False\<rparr>),
                        mediaImage := Some (image
                          \<lparr> img_src := buildSrc page src0 120,
                            srcset := join_comma
                              (map (\<lambda>width. buildSrc page src0 width @ '' '' @ decimal width @ ''w'') widths),
                            sizes := ''(max-width: 480px) 80px, 120px'',
                            alt := or_else (js_or (case previewImage of
                                                     None \<Rightarrow> None | Some im \<Rightarrow> image_alt im)
                                                  (dataset this ''product-title'')) [] \<rparr>) \<rparr>)"

text \<open>The product id an event carries: \<open>(data.newProduct?.id ?? data.productId)?.toString()\<close>.\<close>

definition variant_productId :: "variant_data \<Rightarrow> string option" where
  "variant_productId d =
     js_toString (coalesce (case newProduct d of None \<Rightarrow> IdUndefined | Some p \<Rightarrow> product_id p)
                           (data_productId d))"

definition StickyAtcElement_handleVariantUpdate ::
    "section_dom \<Rightarrow> VariantUpdateEvent \<Rightarrow> StickyAtcElement \<Rightarrow> StickyAtcElement" where
  "StickyAtcElement_handleVariantUpdate page event this =
     (case detail event of
        None \<Rightarrow> this
      | Some det \<Rightarrow>
     (case data det of
        None \<Rightarrow> this
      | Some d \<Rightarrow>
          let productId' = variant_productId d in
          if \<not> truthy productId' \<or> productId' \<noteq> Some (productId this) then this
          else
            let pid = or_else productId' [];
                this1 = dataset_set ''product-id'' pid (this\<lparr>productId := pid\<rparr>);
                variantResource = (case resource det of
                                     Some r \<Rightarrow> r
                                   | None \<Rightarrow> \<lparr> resource_url = None, resource_title = None,
                                               featured_media = None \<rparr>);
                targetUrl = js_or (resource_url variantResource)
                             (js_or (case newProduct d of None \<Rightarrow> None | Some p \<Rightarrow> product_url p)
                                    (dataset this1 ''product-url''));
                this2 = (if truthy targetUrl then
                           dataset_set ''product-url'' (or_else targetUrl [])
                             (this1\<lparr> titleLink := map_option (\<lambda>l. l\<lparr>href := or_else targetUrl []\<rparr>)
                                                    (titleLink this1),
                                     mediaLink := map_option (\<lambda>l. l\<lparr>href := or_else targetUrl []\<rparr>)
                                                    (mediaLink this1) \<rparr>)
                         else this1);
                this3 = (case StickyAtcElement_getAnchor page this2 of
                           None \<Rightarrow> this2
                         | Some currentAnchor \<Rightarrow>
                             if Some currentAnchor \<noteq> anchorElement this2
                             then StickyAtcElement_resetIntersectionObserver page currentAnchor this2
                             else this2);
                variantTitle = (case resource_title variantResource of None \<Rightarrow> [] | Some t \<Rightarrow> t)
            in StickyAtcElement_updateMedia page variantResource
                 (StickyAtcElement_updateVariantTitle variantTitle this3)))"

text \<open>Concrete inputs: a bar for product 42 whose markup says it is hidden.\<close>

definition hidden_markup :: "string \<rightharpoonup> string" where
  "hidden_markup = [''aria-hidden'' \<mapsto> ''true'', ''data-product-id'' \<mapsto> ''42'']"

definition product_bar :: StickyAtcElement where
  "product_bar =
     \<lparr> attributes = hidden_markup, classList = [], console = [], created = 0,
       section_el = Some 1, productId = ''42'',
       titleLink = Some \<lparr> href = ''/products/a'', link_hidden = False \<rparr>,
       variantTarget = Some \<lparr> textContent = [], hidden = True \<rparr>,
       mediaLink = Some \<lparr> href = ''/products/a'', link_hidden = True \<rparr>,
       mediaImage = None, anchorElement = None, intersectionObserver = None \<rparr>"

definition plain_dom :: section_dom where
  "plain_dom = \<lparr> anchor = Some 2, rect_bottom = (\<lambda>n. 500), url_with_width = (\<lambda>u w. None) \<rparr>"

definition other_product_data :: variant_data where
  "other_product_data = \<lparr> newProduct = None, data_productId = IdNumber 7 \<rparr>"

definition red_variant :: VariantResource where
  "red_variant = \<lparr> resource_url = Some ''/products/a?variant=1'', resource_title = Some ''Red'',
                    featured_media = None \<rparr>"

definition other_product_event :: VariantUpdateEvent where
  "other_product_event =
     \<lparr> detail = Some \<lparr> resource = Some red_variant, data = Some other_product_data \<rparr> \<rparr>"

definition same_product_event :: VariantUpdateEvent where
  "same_product_event =
     \<lparr> detail = Some \<lparr> resource = Some red_variant,
                       data = Some \<lparr> newProduct = None, data_productId = IdNumber 42 \<rparr> \<rparr> \<rparr>"

section \<open>Video player (class MkVideoPlayer)\<close>

text \<open>
  A media element is described by what the player reads from it and does to it: the
  properties it assigns, and the methods it calls, in order. \<open>currentSrc\<close> is
  read-only and kept by the browser. An iframe's \<open>contentWindow\<close> may be null; the
  messages posted to it are recorded.
\<close>

datatype media_call = Load | Play | Pause

record HTMLVideoElement =
  src :: string
  currentSrc :: string
  poster :: string
  currentTime :: real
  calls :: "media_call list"

record HTMLIFrameElement =
  frame_src :: string
  contentWindow :: bool
  posted :: "string list"

datatype element_kind = Video HTMLVideoElement | IFrame HTMLIFrameElement | OtherElement

record media_node =
  className :: "string list"
  kind :: element_kind

text \<open>
  What the browser answers: whether \<open>window.matchMedia("(max-width: 749px)")\<close>
  matches, whether \<open>play()\<close> returns a promise (old browsers return
  \<open>undefined\<close>), and what reading \<open>element.src\<close> returns. The fields \<open>src\<close> and
  \<open>frame_src\<close> hold the value of the \<open>src\<close> attribute as it was assigned (empty
  when there is none); the getter answers with the address resolved against the
  document, \<open>read_src\<close> of that value.
\<close>

record browser =
  matches_mobile :: bool
  play_returns_promise :: bool
  read_src :: "string \<Rightarrow> string"

text \<open>
  The base class \<open>Component\<close> belongs to the theme and is not part of these files;
  its \<open>connectedCallback\<close> and \<open>disconnectedCallback\<close> resolve the element's
  references and touch none of the fields below.

  The player's private fields \<open>#observer\<close>, \<open>#isLoaded\<close>, \<open>#isPlaying\<close> and the
  state of its \<open>#abortController\<close>; the one media element of its subtree (the source
  notes that there is only one); the inline \<open>display\<close> style of
  \<open>.mk-video__container\<close> when that is an \<open>HTMLElement\<close>; the number of play buttons
  and of click listeners bound to them; and the number of \<open>play()\<close> promises whose
  handlers have not run yet.
\<close>

record MkVideoPlayer = html_element +
  priv_observer :: "intersection_observer option"
  priv_isLoaded :: bool
  priv_isPlaying :: bool
  priv_aborted :: bool
  media :: "media_node option"
  container :: "string option"
  playButtons :: nat
  clickListeners :: nat
  pendingPlay :: nat

definition media_query :: "string \<Rightarrow> MkVideoPlayer \<Rightarrow> media_node option" where
  "media_query c this =
     (case media this of
        None \<Rightarrow> None
      | Some n \<Rightarrow> if c \<in> set (className n) then Some n else None)"

definition set_kind :: "element_kind \<Rightarrow> MkVideoPlayer \<Rightarrow> MkVideoPlayer" where
  "set_kind k this = this\<lparr>media := map_option (\<lambda>n. n\<lparr>kind := k\<rparr>) (media this)\<rparr>"

definition postMessage :: "string \<Rightarrow> HTMLIFrameElement \<Rightarrow> HTMLIFrameElement" where
  "postMessage msg f = (if contentWindow f then f\<lparr>posted := posted f @ [msg]\<rparr> else f)"

text \<open>Reading the media element back, for the statements below.\<close>

definition the_video :: "MkVideoPlayer \<Rightarrow> HTMLVideoElement option" where
  "the_video this =
     (case media this of
        None \<Rightarrow> None
      | Some n \<Rightarrow> (case kind n of Video v \<Rightarrow> Some v | _ \<Rightarrow> None))"

definition the_iframe :: "MkVideoPlayer \<Rightarrow> HTMLIFrameElement option" where
  "the_iframe this =
     (case media this of
        None \<Rightarrow> None
      | Some n \<Rightarrow> (case kind n of IFrame f \<Rightarrow> Some f | _ \<Rightarrow> None))"

definition priv_getCurrentVideo :: "MkVideoPlayer \<Rightarrow> media_node option" where
  "priv_getCurrentVideo this =
     (case media_query ''mk-video__element'' this of
        None \<Rightarrow> None
      | Some n \<Rightarrow> (case kind n of OtherElement \<Rightarrow> None | _ \<Rightarrow> Some n))"

definition priv_setupIntersectionObserver :: "MkVideoPlayer \<Rightarrow> MkVideoPlayer" where
  "priv_setupIntersectionObserver this =
     this\<lparr> priv_observer := Some \<lparr> io_serial = created this, io_rootMargin = ''50px'',
                                    io_threshold = [0.1], io_targets = [Self] \<rparr>,
           created := created this + 1 \<rparr>"

definition priv_loadMP4 :: "browser \<Rightarrow> MkVideoPlayer \<Rightarrow> MkVideoPlayer" where
  "priv_loadMP4 b this =
     (let videoDesktop = dataset this ''video-desktop'';
          videoMobile = dataset this ''video-mobile'';
          posterDesktop = dataset this ''poster-desktop'';
          posterMobile = dataset this ''poster-mobile''
      in if \<not> truthy videoDesktop then
           console_warn ''MkVideoPlayer: No video source provided'' this
         else
           let isMobile = matches_mobile b;
               videoSrc = (if isMobile \<and> truthy videoMobile then videoMobile else videoDesktop);
               posterSrc = (if isMobile \<and> truthy posterMobile then posterMobile else posterDesktop)
           in case media_query ''mk-video__element'' this of
                None \<Rightarrow> this
              | Some n \<Rightarrow>
                  (case kind n of
                     Video video \<Rightarrow>
                       if truthy videoSrc then
                         let wanted = or_else videoSrc [];
                             current = (if currentSrc video \<noteq> [] then currentSrc video
                                        else read_src b (src video));
                             needsReload = (current = [] \<or> current = [] \<or> current \<noteq> wanted);
                             video1 = (if needsReload
                                       then video\<lparr>src := wanted, calls := calls video @ [Load]\<rparr>
                                       else video);
                             video2 = (if truthy posterSrc
                                       then video1\<lparr>poster := or_else posterSrc []\<rparr>
                                       else video1)
                         in set_kind (Video video2) this
                       else this
                   | _ \<Rightarrow> this))"

definition priv_loadYouTube :: "browser \<Rightarrow> MkVideoPlayer \<Rightarrow> MkVideoPlayer" where
  "priv_loadYouTube b this =
     (let youtubeDesktop = dataset this ''youtube-desktop'';
          youtubeMobile = dataset this ''youtube-mobile''
      in if \<not> truthy youtubeDesktop then
           console_warn ''MkVideoPlayer: No YouTube source provided'' this
         else
           let isMobile = matches_mobile b;
               youtubeSrc = (if isMobile \<and> truthy youtubeMobile then youtubeMobile
                             else youtubeDesktop)
           in case media_query ''mk-video__iframe'' this of
                None \<Rightarrow> this
              | Some n \<Rightarrow>
                  (case kind n of
                     IFrame iframe \<Rightarrow>
                       if truthy youtubeSrc then
                         let wanted = or_else youtubeSrc [];
                             current = read_src b (frame_src iframe)
                         in if current = [] \<or> current \<noteq> wanted
                            then set_kind (IFrame (iframe\<lparr>frame_src := wanted\<rparr>)) this
                            else this
                       else this
                   | _ \<Rightarrow> this))"

definition priv_loadVideo :: "browser \<Rightarrow> MkVideoPlayer \<Rightarrow> MkVideoPlayer" where
  "priv_loadVideo b this =
     (if priv_isLoaded this then this
      else
        let videoType = or_else (dataset this ''video-type'') ''mp4'';
            this1 = (if videoType = ''youtube'' then priv_loadYouTube b this
                     else priv_loadMP4 b this)
        in this1\<lparr> priv_isLoaded := True,
                  classList := classList_add ''is-loaded'' (classList this1) \<rparr>)"

definition priv_bindPlayButtonEvents :: "MkVideoPlayer \<Rightarrow> MkVideoPlayer" where
  "priv_bindPlayButtonEvents this =
     (if priv_aborted this then this
      else this\<lparr>clickListeners := clickListeners this + playButtons this\<rparr>)"

text \<open>
  \<open>#playVideo\<close> up to the point where it returns. On a video element it calls
  \<open>play()\<close> and, when that returns a promise, attaches the two handlers below; they
  run when the promise settles.
\<close>

definition priv_playVideo :: "browser \<Rightarrow> MkVideoPlayer \<Rightarrow> MkVideoPlayer" where
  "priv_playVideo b this =
     (if priv_isPlaying this then this
      else
        let videoType = or_else (dataset this ''video-type'') ''mp4'' in
        case priv_getCurrentVideo this of
          None \<Rightarrow> this
        | Some n \<Rightarrow>
            let this1 = this\<lparr>container := map_option (\<lambda>d. []) (container this)\<rparr> in
            (case kind n of
               IFrame iframe \<Rightarrow>
                 if videoType = ''youtube'' then
                   (set_kind (IFrame (postMessage
                        ''{\"event\":\"command\",\"func\":\"playVideo\",\"args\":\"\"}'' iframe)) this1)
                     \<lparr> priv_isPlaying := True,
                       classList := classList_add ''has-started''
                                      (classList_add ''is-playing'' (classList this1)) \<rparr>
                 else this1
             | Video video \<Rightarrow>
                 (set_kind (Video (video\<lparr>calls := calls video @ [Play]\<rparr>)) this1)
                   \<lparr> pendingPlay := (if play_returns_promise b then pendingPlay this1 + 1
                                     else pendingPlay this1) \<rparr>
             | OtherElement \<Rightarrow> this1))"

definition priv_playVideo_then :: "MkVideoPlayer \<Rightarrow> MkVideoPlayer" where
  "priv_playVideo_then this =
     this\<lparr> priv_isPlaying := True,
           classList := classList_add ''has-started''
                          (classList_add ''is-playing'' (classList this)) \<rparr>"

definition priv_playVideo_catch :: "string \<Rightarrow> MkVideoPlayer \<Rightarrow> MkVideoPlayer" where
  "priv_playVideo_catch error this0 =
     (let this = console_warn (''MkVideoPlayer: Video playback failed '' @ error) this0 in
      if dataset this ''autoplay'' = Some ''true''
      then this\<lparr>attributes := (attributes this)(''data-autoplay'' := None)\<rparr>
      else this)"

text \<open>
  A settled promise, and \<open>p.then(f).catch(g)\<close> for handlers that change the state and
  do not throw: the value is what the chain settles to, \<open>Rejected\<close> standing for a
  rejection nobody handled.
\<close>

datatype settled = Fulfilled | Rejected string

definition promise_then :: "settled \<Rightarrow> ('s \<Rightarrow> 's) \<Rightarrow> 's \<Rightarrow> settled \<times> 's" where
  "promise_then p f s = (case p of Fulfilled \<Rightarrow> (Fulfilled, f s) | Rejected e \<Rightarrow> (Rejected e, s))"

definition promise_catch :: "settled \<times> 's \<Rightarrow> (string \<Rightarrow> 's \<Rightarrow> 's) \<Rightarrow> settled \<times> 's" where
  "promise_catch ps g =
     (case ps of (Fulfilled, s) \<Rightarrow> (Fulfilled, s) | (Rejected e, s) \<Rightarrow> (Fulfilled, g e s))"

definition playPromise_settled :: "settled \<Rightarrow> MkVideoPlayer \<Rightarrow> settled \<times> MkVideoPlayer" where
  "playPromise_settled outcome this =
     (if pendingPlay this = 0 then (Fulfilled, this)
      else promise_catch
             (promise_then outcome priv_playVideo_then
                (this\<lparr>pendingPlay := pendingPlay this - 1\<rparr>))
             priv_playVideo_catch)"

definition MkVideoPlayer_connectedCallback :: "browser \<Rightarrow> MkVideoPlayer \<Rightarrow> MkVideoPlayer" where
  "MkVideoPlayer_connectedCallback b this =
     (let isLazyLoad = (dataset this ''lazy-load'' = Some ''true'');
          isAutoplay = (dataset this ''autoplay'' = Some ''true'');
          this1 = priv_bindPlayButtonEvents this;
          this2 = (if isLazyLoad then priv_setupIntersectionObserver this1
                   else priv_loadVideo b this1)
      in if isAutoplay \<and> \<not> isLazyLoad then priv_playVideo b this2 else this2)"

definition MkVideoPlayer_disconnectedCallback :: "MkVideoPlayer \<Rightarrow> MkVideoPlayer" where
  "MkVideoPlayer_disconnectedCallback this =
     (case priv_observer this of
        Some ob \<Rightarrow> this\<lparr>priv_observer := None\<rparr>
      | None \<Rightarrow> this)
       \<lparr> priv_aborted := True, clickListeners := 0 \<rparr>"

text \<open>The callback given to the lazy-load observer: \<open>entries.forEach\<close>.\<close>

fun priv_observerCallback ::
    "browser \<Rightarrow> IntersectionObserverEntry list \<Rightarrow> MkVideoPlayer \<Rightarrow> MkVideoPlayer" where
  "priv_observerCallback b [] this = this"
| "priv_observerCallback b (entry # entries) this =
     priv_observerCallback b entries
       (if isIntersecting entry \<and> \<not> priv_isLoaded this then
          let this1 = priv_loadVideo b this;
              this2 = (if dataset this1 ''autoplay'' = Some ''true''
                       then priv_playVideo b this1 else this1)
          in this2\<lparr>priv_observer :=
                     map_option (\<lambda>ob. ob\<lparr>io_targets := []\<rparr>) (priv_observer this2)\<rparr>
        else this)"

definition MkVideoPlayer_pauseVideo :: "MkVideoPlayer \<Rightarrow> MkVideoPlayer" where
  "MkVideoPlayer_pauseVideo this =
     (if \<not> priv_isPlaying this then this
      else
        let videoType = or_else (dataset this ''video-type'') ''mp4'' in
        case priv_getCurrentVideo this of
          None \<Rightarrow> this
        | Some n \<Rightarrow>
            (case kind n of
               IFrame iframe \<Rightarrow>
                 if videoType = ''youtube'' then
                   set_kind (IFrame (postMessage
                     ''{\"event\":\"command\",\"func\":\"pauseVideo\",\"args\":\"\"}'' iframe)) this
                 else this
             | Video video \<Rightarrow> set_kind (Video (video\<lparr>calls := calls video @ [Pause]\<rparr>)) this
             | OtherElement \<Rightarrow> this)
              \<lparr> priv_isPlaying := False,
                classList := classList_remove ''is-playing'' (classList this) \<rparr>)"

definition MkVideoPlayer_loadVideo :: "browser \<Rightarrow> MkVideoPlayer \<Rightarrow> MkVideoPlayer" where
  "MkVideoPlayer_loadVideo b this = priv_loadVideo b this"

definition MkVideoPlayer_playVideo :: "browser \<Rightarrow> MkVideoPlayer \<Rightarrow> MkVideoPlayer" where
  "MkVideoPlayer_playVideo b this =
     priv_playVideo b (if \<not> priv_isLoaded this then priv_loadVideo b this else this)"

definition MkVideoPlayer_isPlaying :: "MkVideoPlayer \<Rightarrow> bool" where
  "MkVideoPlayer_isPlaying this = priv_isPlaying this"

text \<open>
  The argument of \<open>reset\<close>: nothing, \<open>null\<close>, a boolean, or an object whose
  \<open>unload\<close> and \<open>disableAutoplay\<close> may each be missing.
\<close>

datatype reset_options =
  ResetUndefined | ResetNull | ResetBoolean bool | ResetObject "bool option" "bool option"

definition reset_unload :: "reset_options \<Rightarrow> bool" where
  "reset_unload options =
     (case options of
        ResetBoolean b \<Rightarrow> b
      | ResetObject unload disableAutoplay \<Rightarrow> (case unload of None \<Rightarrow> False | Some u \<Rightarrow> u)
      | _ \<Rightarrow> False)"

definition reset_disableAutoplay :: "reset_options \<Rightarrow> bool" where
  "reset_disableAutoplay options =
     (case options of
        ResetObject unload disableAutoplay \<Rightarrow>
          (case disableAutoplay of None \<Rightarrow> False | Some d \<Rightarrow> d)
      | _ \<Rightarrow> False)"

text \<open>
  The end of both unload branches of \<open>reset\<close>:
  \<open>if (isLazyLoad && this.#observer) { disconnect; null; #setupIntersectionObserver }\<close>.
\<close>

definition reset_rearm :: "bool \<Rightarrow> MkVideoPlayer \<Rightarrow> MkVideoPlayer" where
  "reset_rearm isLazyLoad this =
     (case priv_observer this of
        None \<Rightarrow> this
      | Some ob \<Rightarrow>
          if isLazyLoad then priv_setupIntersectionObserver (this\<lparr>priv_observer := None\<rparr>)
          else this)"

definition MkVideoPlayer_reset :: "reset_options \<Rightarrow> MkVideoPlayer \<Rightarrow> MkVideoPlayer" where
  "MkVideoPlayer_reset options this0 =
     (let unload = reset_unload options;
          disableAutoplay = reset_disableAutoplay options;
          videoType = or_else (dataset this0 ''video-type'') ''mp4'';
          isLazyLoad = (dataset this0 ''lazy-load'' = Some ''true'');
          this1 = (if priv_isPlaying this0 then MkVideoPlayer_pauseVideo this0 else this0);
          this2 = this1\<lparr> priv_isPlaying := False,
                         classList := classList_remove ''has-started''
                                        (classList_remove ''is-playing'' (classList this1)) \<rparr>;
          this3 = (if disableAutoplay
                   then dataset_set ''autoplay'' ''false''
                          (dataset_set ''autoplay-original''
                             (or_else (dataset this2 ''autoplay'') []) this2)
                   else this2);
          this4 =
            (case priv_getCurrentVideo this3 of
               None \<Rightarrow> this3
             | Some n \<Rightarrow>
                 (case kind n of
                    IFrame iframe \<Rightarrow>
                      if videoType = ''youtube'' then
                        let stopped = postMessage
                              ''{\"event\":\"command\",\"func\":\"seekTo\",\"args\":[0, true]}''
                              (postMessage
                                 ''{\"event\":\"command\",\"func\":\"stopVideo\",\"args\":\"\"}''
                                 iframe)
                        in if unload then
                             reset_rearm isLazyLoad
                               ((set_kind (IFrame (stopped\<lparr>frame_src := []\<rparr>)) this3)
                                  \<lparr> priv_isLoaded := False,
                                    classList := classList_remove ''is-loaded'' (classList this3) \<rparr>)
                           else set_kind (IFrame stopped) this3
                      else this3
                  | Video video \<Rightarrow>
                      let rewound = video\<lparr>calls := calls video @ [Pause], currentTime := 0\<rparr>
                      in if unload then
                           reset_rearm isLazyLoad
                             ((set_kind (Video (rewound\<lparr>src := [], calls := calls rewound @ [Load]\<rparr>))
                                 this3)
                                \<lparr> priv_isLoaded := False,
                                  classList := classList_remove ''is-loaded'' (classList this3) \<rparr>)
                         else set_kind (Video rewound) this3
                  | OtherElement \<Rightarrow> this3))
      in if isLazyLoad
         then this4\<lparr>container := map_option (\<lambda>d. ''none'') (container this4)\<rparr>
         else this4)"

text \<open>
  A desktop browser showing a page of \<open>https://shop.example/\<close>: an address that
  starts with \<open>https://\<close> is read back as it is, any other one relative to the page,
  and a missing \<open>src\<close> as the empty string.
\<close>

definition resolve_on_shop :: "string \<Rightarrow> string" where
  "resolve_on_shop s =
     (if s = [] then []
      else if take 8 s = ''https://'' then s
      else ''https://shop.example/'' @ s)"

definition desktop_browser :: browser where
  "desktop_browser = \<lparr> matches_mobile = False, play_returns_promise = True,
                        read_src = resolve_on_shop \<rparr>"

text \<open>Concrete players: an MP4 player and a YouTube player as the markup gives them.\<close>

definition mp4_player :: "string \<Rightarrow> MkVideoPlayer" where
  "mp4_player lazy =
     \<lparr> attributes = [''data-lazy-load'' \<mapsto> lazy, ''data-autoplay'' \<mapsto> ''true'',
                      ''data-video-desktop'' \<mapsto> ''hero.mp4''],
       classList = [], console = [], created = 0,
       priv_observer = None, priv_isLoaded = False, priv_isPlaying = False,
       priv_aborted = False,
       media = Some \<lparr> className = [''mk-video__element''],
                       kind = Video \<lparr> src = [], currentSrc = [], poster = [],
                                      currentTime = 0, calls = [] \<rparr> \<rparr>,
       container = Some ''none'', playButtons = 1, clickListeners = 0, pendingPlay = 0 \<rparr>"

definition youtube_player :: MkVideoPlayer where
  "youtube_player =
     \<lparr> attributes = [''data-lazy-load'' \<mapsto> ''false'', ''data-video-type'' \<mapsto> ''youtube'',
                      ''data-youtube-desktop'' \<mapsto> ''https://www.youtube.com/embed/x''],
       classList = [], console = [], created = 0,
       priv_observer = None, priv_isLoaded = False, priv_isPlaying = False,
       priv_aborted = False,
       media = Some \<lparr> className = [''mk-video__element'', ''mk-video__iframe''],
                       kind = IFrame \<lparr> frame_src = [], contentWindow = True, posted = [] \<rparr> \<rparr>,
       container = Some ''none'', playButtons = 1, clickListeners = 0, pendingPlay = 0 \<rparr>"

text \<open>
  A lazy MP4 player that was connected and scrolled into view, so that it loaded; and
  the same player after it was taken out of the document.
\<close>

definition loaded_player :: MkVideoPlayer where
  "loaded_player =
     priv_observerCallback desktop_browser [entry_full]
       (MkVideoPlayer_connectedCallback desktop_browser (mp4_player ''true''))"

definition detached_player :: MkVideoPlayer where
  "detached_player = MkVideoPlayer_disconnectedCallback loaded_player"

text \<open>
  A player that is not lazy, whose video element already shows the configured source
  through a \<open>source\<close> child: its \<open>currentSrc\<close> is that address and its own \<open>src\<close> is
  empty.
\<close>

definition sourced_player :: MkVideoPlayer where
  "sourced_player =
     \<lparr> attributes = [''data-lazy-load'' \<mapsto> ''false'',
                      ''data-video-desktop'' \<mapsto> ''https://cdn.example/hero.mp4''],
       classList = [], console = [], created = 0,
       priv_observer = None, priv_isLoaded = False, priv_isPlaying = False,
       priv_aborted = False,
       media = Some \<lparr> className = [''mk-video__element''],
                       kind = Video \<lparr> src = [], currentSrc = ''https://cdn.example/hero.mp4'',
                                      poster = [], currentTime = 0, calls = [] \<rparr> \<rparr>,
       container = Some [], playButtons = 1, clickListeners = 0, pendingPlay = 0 \<rparr>"

text \<open>The same player with a poster configured and autoplay switched on.\<close>

definition sourced_autoplay_player :: MkVideoPlayer where
  "sourced_autoplay_player =
     sourced_player\<lparr>attributes := (attributes sourced_player)
        (''data-autoplay'' \<mapsto> ''true'', ''data-poster-desktop'' \<mapsto> ''p.jpg'')\<rparr>"

section \<open>Product description block (class ProductDescriptionBlock)\<close>

text \<open>
  Lengths are CSS pixels. A computed style value is a pixel length or a keyword such as
  \<open>normal\<close>; \<open>parseFloat\<close> of a keyword is \<open>NaN\<close>, here \<open>None\<close>. The inline
  \<open>max-height\<close> of the content is \<open>none\<close>, a pixel length, or not set.
\<close>

datatype css_value = Px real | Keyword string

datatype max_height = MaxUnset | MaxNone | MaxPx real

definition parseFloat :: "css_value \<Rightarrow> real option" where
  "parseFloat x = (case x of Px r \<Rightarrow> Some r | Keyword k \<Rightarrow> None)"

record computed_style =
  lineHeight :: css_value
  fontSize :: css_value

text \<open>
  \<open>textElement\<close> is the computed style of the node
  \<open>querySelector('.text-block > *') || querySelector('.text-block') || firstElementChild\<close>,
  when there is one. \<open>scrollHeight\<close> and \<open>offsetHeight\<close> are what the browser measures.
\<close>

record content_element =
  scrollHeight :: real
  offsetHeight :: real
  scrollTop :: real
  style_maxHeight :: max_height
  textElement :: "computed_style option"

record toggle_button =
  toggle_hidden :: bool
  aria_expanded :: "string option"

text \<open>
  \<open>content\<close> and \<open>toggle\<close> are what \<open>#contentRef()\<close> and \<open>#toggleRef()\<close>
  return: the references the theme's \<open>Component\<close> base class resolves, or nothing.
\<close>

record ProductDescriptionBlock = html_element +
  priv_collapsedHeight :: real
  priv_expanded :: bool
  priv_lineClamp :: nat
  content :: "content_element option"
  toggle :: "toggle_button option"

definition priv_calculateCollapsedHeight :: "ProductDescriptionBlock \<Rightarrow> real" where
  "priv_calculateCollapsedHeight this =
     (case content this of
        None \<Rightarrow> 0
      | Some c \<Rightarrow>
          (case textElement c of
             None \<Rightarrow> 0
           | Some computed \<Rightarrow>
               let fromFontSize =
                     (case parseFloat (fontSize computed) of
                        None \<Rightarrow> 0
                      | Some fs \<Rightarrow> if fs \<noteq> 0 then fs * 1.2 else 0);
                   lh = (case parseFloat (lineHeight computed) of
                           None \<Rightarrow> fromFontSize
                         | Some parsed \<Rightarrow>
                             if parsed = 0 \<or> lineHeight computed = Keyword ''normal''
                             then fromFontSize else parsed)
               in max 0 (lh * real (priv_lineClamp this))))"

definition priv_updateOverflowState :: "ProductDescriptionBlock \<Rightarrow> ProductDescriptionBlock" where
  "priv_updateOverflowState this =
     (case content this of
        None \<Rightarrow> this
      | Some c \<Rightarrow>
     (case toggle this of
        None \<Rightarrow> this
      | Some t \<Rightarrow>
          if priv_collapsedHeight this \<le> 0 then
            (dataset_set ''expanded'' ''false'' (dataset_set ''has-overflow'' ''false'' this))
              \<lparr> priv_expanded := False,
                content := Some (c\<lparr>style_maxHeight := MaxNone\<rparr>),
                toggle := Some (t\<lparr>toggle_hidden := True, aria_expanded := Some ''false''\<rparr>) \<rparr>
          else
            let hasOverflow = (scrollHeight c > priv_collapsedHeight this + 1);
                this1 = dataset_set ''has-overflow'' (if hasOverflow then ''true'' else ''false'') this
            in if \<not> hasOverflow then
                 (dataset_set ''expanded'' ''false'' this1)
                   \<lparr> priv_expanded := False,
                     content := Some (c\<lparr>style_maxHeight := MaxNone\<rparr>),
                     toggle := Some (t\<lparr>toggle_hidden := True, aria_expanded := Some ''false''\<rparr>) \<rparr>
               else
                 let wasHidden = toggle_hidden t;
                     shown = t\<lparr>toggle_hidden := False\<rparr>
                 in if \<not> priv_expanded this \<or> wasHidden then
                      (dataset_set ''expanded'' ''false'' this1)
                        \<lparr> priv_expanded := False,
                          content := Some (c\<lparr>style_maxHeight := MaxPx (priv_collapsedHeight this),
                                            scrollTop := 0\<rparr>),
                          toggle := Some (shown\<lparr>aria_expanded := Some ''false''\<rparr>) \<rparr>
                    else this1\<lparr>toggle := Some (shown\<lparr>aria_expanded := Some ''true''\<rparr>)\<rparr>))"

definition priv_initialize :: "ProductDescriptionBlock \<Rightarrow> ProductDescriptionBlock" where
  "priv_initialize this =
     (if content this = None \<or> toggle this = None then this
      else priv_updateOverflowState
             (this\<lparr>priv_collapsedHeight := priv_calculateCollapsedHeight this\<rparr>))"

definition expanded_unclamped :: "ProductDescriptionBlock \<Rightarrow> ProductDescriptionBlock" where
  "expanded_unclamped this =
     (if priv_expanded this
      then this\<lparr>content := map_option (\<lambda>c. c\<lparr>style_maxHeight := MaxNone\<rparr>) (content this)\<rparr>
      else this)"

definition priv_onWindowResize :: "ProductDescriptionBlock \<Rightarrow> ProductDescriptionBlock" where
  "priv_onWindowResize this =
     (case content this of
        None \<Rightarrow> this
      | Some c \<Rightarrow>
          expanded_unclamped
            (priv_updateOverflowState
               (this\<lparr>priv_collapsedHeight := priv_calculateCollapsedHeight this\<rparr>)))"

definition priv_handleContentResize :: "ProductDescriptionBlock \<Rightarrow> ProductDescriptionBlock" where
  "priv_handleContentResize this =
     (case content this of
        None \<Rightarrow> this
      | Some c \<Rightarrow>
          let newCollapsedHeight = priv_calculateCollapsedHeight this;
              this1 = (if \<not> priv_expanded this \<and> newCollapsedHeight > 0 \<and>
                          \<bar>newCollapsedHeight - priv_collapsedHeight this\<bar> > 1
                       then this\<lparr> priv_collapsedHeight := newCollapsedHeight,
                                   content := Some (c\<lparr>style_maxHeight := MaxPx newCollapsedHeight\<rparr>) \<rparr>
                       else this)
          in expanded_unclamped (priv_updateOverflowState this1))"

text \<open>A block of five lines of 20 pixels whose content is exactly 100 pixels high.\<close>

definition fitting_block :: ProductDescriptionBlock where
  "fitting_block =
     \<lparr> attributes = [''data-expanded'' \<mapsto> ''false'', ''data-has-overflow'' \<mapsto> ''false''],
       classList = [], console = [], created = 0,
       priv_collapsedHeight = 0, priv_expanded = False, priv_lineClamp = 5,
       content = Some \<lparr> scrollHeight = 100, offsetHeight = 100, scrollTop = 0,
                         style_maxHeight = MaxUnset,
                         textElement = Some \<lparr> lineHeight = Px 20, fontSize = Px 16 \<rparr> \<rparr>,
       toggle = Some \<lparr> toggle_hidden = False, aria_expanded = None \<rparr> \<rparr>"

section \<open>Header (class MKHeaderComponent)\<close>

text \<open>
  The page as \<open>#initMobileMenu\<close> sees it: whether \<open>#mk-header-component\<close> exists;
  the trigger button with its \<open>aria-expanded\<close> attribute and the inline \<open>display\<close>
  of its two icons (\<open>None\<close> for an icon that is missing); whether the details element
  exists and carries \<open>open\<close>; whether it sits in a \<open>header-drawer\<close>; and the
  listeners registered so far.
\<close>

record menu_button =
  button_aria_expanded :: "string option"
  openIcon :: "string option"
  closeIcon :: "string option"

record header_page =
  headerComponent :: bool
  menuButton :: "menu_button option"
  drawerDetails :: "bool option"
  headerDrawer :: bool
  toggleListeners :: nat
  buttonClickListeners :: nat

definition updateButtonState :: "header_page \<Rightarrow> header_page" where
  "updateButtonState doc =
     (case menuButton doc of
        None \<Rightarrow> doc
      | Some button \<Rightarrow>
     (case drawerDetails doc of
        None \<Rightarrow> doc
      | Some isOpen \<Rightarrow>
          let button1 = button\<lparr>button_aria_expanded := Some (if isOpen then ''true'' else ''false'')\<rparr>
          in doc\<lparr>menuButton := Some
               (if openIcon button1 \<noteq> None \<and> closeIcon button1 \<noteq> None then
                  (if isOpen
                   then button1\<lparr>openIcon := Some ''none'', closeIcon := Some ''block''\<rparr>
                   else button1\<lparr>openIcon := Some ''block'', closeIcon := Some ''none''\<rparr>)
                else button1)\<rparr>))"

definition MKHeaderComponent_initMobileMenu :: "header_page \<Rightarrow> header_page" where
  "MKHeaderComponent_initMobileMenu doc =
     (if \<not> headerComponent doc then doc
      else if menuButton doc = None \<or> drawerDetails doc = None \<or> \<not> headerDrawer doc then doc
      else
        let doc1 = updateButtonState
                     (doc\<lparr> toggleListeners := toggleListeners doc + 1,
                           buttonClickListeners := buttonClickListeners doc + 1 \<rparr>)
        in case menuButton doc1 of
             None \<Rightarrow> doc1
           | Some button \<Rightarrow>
               if openIcon button \<noteq> None \<and> closeIcon button \<noteq> None
               then doc1\<lparr>menuButton := Some (button\<lparr>openIcon := Some ''block'',
                                                     closeIcon := Some ''none''\<rparr>)\<rparr>
               else doc1)"

text \<open>
  The browser dispatches \<open>toggle\<close> on the details element after its \<open>open\<close>
  attribute changed: every registered listener runs.
\<close>

definition details_toggle_event :: "header_page \<Rightarrow> header_page" where
  "details_toggle_event doc = (updateButtonState ^^ toggleListeners doc) doc"

text \<open>A page whose drawer is open when the header initialises, and the same page closed.\<close>

definition header_markup :: "bool \<Rightarrow> header_page" where
  "header_markup isOpen =
     \<lparr> headerComponent = True,
       menuButton = Some \<lparr> button_aria_expanded = Some ''false'',
                            openIcon = Some [], closeIcon = Some [] \<rparr>,
       drawerDetails = Some isOpen, headerDrawer = True,
       toggleListeners = 0, buttonClickListeners = 0 \<rparr>"

section \<open>Properties\<close>

lemma classList_add_mem: "c \<in> set (classList_add c cs)"
  by (simp add: classList_add_def)

lemma classList_remove_mem: "c \<notin> set (classList_remove c cs)"
  by (simp add: classList_remove_def)

subsection \<open>Sticky bar: intersection handling\<close>

lemma handleIntersection_skips:
  "\<forall>x \<in> set pre. intersectionRatio x \<noteq> 0 \<and> intersectionRatio x < 0.75 \<Longrightarrow>
   StickyATC_handleIntersection (pre @ rest) this = StickyATC_handleIntersection rest this"
  by (induction pre) auto

text \<open>
  C2, as the code has it. The handler walks the batch of entries and stops at the first
  entry whose ratio is exactly 0 (the class \<open>is-visible\<close> is added) or at least 0.75
  (the class is removed); the entries after that one are not looked at. Entries whose
  ratio lies strictly between 0 and 0.75 are skipped, and a batch made only of such
  entries leaves the element as it was.
\<close>

theorem StickyATC_first_decisive_entry:
  assumes "\<forall>x \<in> set pre. intersectionRatio x \<noteq> 0 \<and> intersectionRatio x < 0.75"
  shows "StickyATC_handleIntersection pre this = this \<and>
         StickyATC_handleIntersection (pre @ entry # post) this =
           (if intersectionRatio entry = 0
            then this\<lparr>classList := classList_add ''is-visible'' (classList this)\<rparr>
            else if intersectionRatio entry \<ge> 0.75
            then this\<lparr>classList := classList_remove ''is-visible'' (classList this)\<rparr>
            else StickyATC_handleIntersection post this) \<and>
         (intersectionRatio entry = 0 \<longrightarrow>
            ''is-visible'' \<in> set (classList (StickyATC_handleIntersection (pre @ entry # post) this))) \<and>
         (intersectionRatio entry \<ge> 0.75 \<longrightarrow>
            ''is-visible'' \<notin> set (classList (StickyATC_handleIntersection (pre @ entry # post) this)))"
  using handleIntersection_skips[OF assms, of "[]" this]
        handleIntersection_skips[OF assms, of "entry # post" this]
  by (simp add: classList_add_mem classList_remove_mem)

theorem StickyATC_first_decisive_entry_witness:
  "intersectionRatio entry_half \<noteq> 0 \<and> intersectionRatio entry_half < 0.75 \<and>
   intersectionRatio entry_gone = 0 \<and>
   ''is-visible'' \<in> set (classList
      (StickyATC_handleIntersection [entry_half, entry_gone, entry_full] fresh_bar))"
proof -
  have skipped: "\<forall>x \<in> set [entry_half]. intersectionRatio x \<noteq> 0 \<and> intersectionRatio x < 0.75"
    by (simp add: entry_half_def)
  have gone: "intersectionRatio entry_gone = 0"
    by (simp add: entry_gone_def)
  from StickyATC_first_decisive_entry[OF skipped, of fresh_bar entry_gone "[entry_full]"] gone skipped
  show ?thesis by simp
qed

text \<open>
  The claim as worded speaks of every entry delivered. In the batch below the target
  is first reported fully visible and then fully gone: the second entry has ratio 0,
  yet the element does not carry \<open>is-visible\<close> afterwards.
\<close>

theorem StickyATC_later_entry_ignored:
  "intersectionRatio entry_gone = 0 \<and> entry_gone \<in> set [entry_full, entry_gone] \<and>
   ''is-visible'' \<notin> set (classList (StickyATC_handleIntersection [entry_full, entry_gone] fresh_bar))"
  by (simp add: entry_gone_def entry_full_def fresh_bar_def StickyATC_constructor_def
      classList_remove_def)

subsection \<open>Sticky bar: bounded retries\<close>

lemma attach_retry:
  "querySelector (targetSelector this) = None \<Longrightarrow> retryCount this < 10 \<Longrightarrow>
   StickyATC_attachObserver querySelector this =
     requestAnimationFrame (this\<lparr>targetNode := None, retryCount := retryCount this + 1\<rparr>)"
  by (simp add: StickyATC_attachObserver_def Let_def)

lemma attach_fallback:
  "querySelector (targetSelector this) = None \<Longrightarrow> \<not> retryCount this < 10 \<Longrightarrow>
   StickyATC_attachObserver querySelector this =
     (console_warn (''[sticky-atc] Target '' @ [CHR 0x22] @ targetSelector this
                            @ [CHR 0x22] @ '' not found.'') (this\<lparr>targetNode := None\<rparr>))
              \<lparr>classList := classList_add ''is-visible'' (classList this)\<rparr>"
  by (simp add: StickyATC_attachObserver_def Let_def)

lemma frames_idle: "frames this = [] \<Longrightarrow> StickyATC_frames k querySelector this = this"
  by (induction k) (simp_all add: StickyATC_animationFrame_def)

lemma frames_add:
  "StickyATC_frames (j + k) querySelector this =
   StickyATC_frames k querySelector (StickyATC_frames j querySelector this)"
  by (induction j arbitrary: this) simp_all

text \<open>While the retry budget lasts, a failing frame only counts and schedules the next frame.\<close>

lemma frames_retrying:
  "querySelector (targetSelector this) = None \<Longrightarrow> length (frames this) = 1 \<Longrightarrow>
   retryCount this + k \<le> 10 \<Longrightarrow>
   classList (StickyATC_frames k querySelector this) = classList this \<and>
   console (StickyATC_frames k querySelector this) = console this \<and>
   targetSelector (StickyATC_frames k querySelector this) = targetSelector this \<and>
   retryCount (StickyATC_frames k querySelector this) = retryCount this + k \<and>
   length (frames (StickyATC_frames k querySelector this)) = 1"
proof (induction k arbitrary: this)
  case 0
  then show ?case by simp
next
  case (Suc k)
  obtain h where h: "frames this = [h]"
    using Suc.prems(2) by (cases "frames this") auto
  let ?next = "StickyATC_animationFrame querySelector this"
  have step: "?next = requestAnimationFrame
      (this\<lparr>frames := [], targetNode := None, retryCount := retryCount this + 1\<rparr>)"
    using Suc.prems h by (simp add: StickyATC_animationFrame_def attach_retry)
  have "querySelector (targetSelector ?next) = None" "length (frames ?next) = 1"
       "retryCount ?next + k \<le> 10"
    using Suc.prems by (simp_all add: step requestAnimationFrame_def)
  from Suc.IH[OF this] show ?case
    by (simp add: step requestAnimationFrame_def)
qed

text \<open>The frame that finds the budget used up warns, shows the bar and schedules nothing.\<close>

lemma frame_gives_up:
  assumes "querySelector (targetSelector this) = None" "length (frames this) = 1"
    "retryCount this = 10"
  shows "classList (StickyATC_animationFrame querySelector this)
           = classList_add ''is-visible'' (classList this) \<and>
         console (StickyATC_animationFrame querySelector this)
           = console this @ [''[sticky-atc] Target '' @ [CHR 0x22] @ targetSelector this
                              @ [CHR 0x22] @ '' not found.''] \<and>
         frames (StickyATC_animationFrame querySelector this) = []"
proof -
  obtain h where h: "frames this = [h]"
    using assms(2) by (cases "frames this") auto
  show ?thesis
    using assms h by (simp add: StickyATC_animationFrame_def attach_fallback console_warn_def)
qed

lemma connected_first_attempt:
  assumes "querySelector (or_else (attrs ''data-target-selector'') ''.product-form-buttons'') = None"
  shows "classList (StickyATC_connectedCallback querySelector (StickyATC_constructor attrs classes)) = classes"
    "console (StickyATC_connectedCallback querySelector (StickyATC_constructor attrs classes)) = []"
    "targetSelector (StickyATC_connectedCallback querySelector (StickyATC_constructor attrs classes))
       = or_else (attrs ''data-target-selector'') ''.product-form-buttons''"
    "retryCount (StickyATC_connectedCallback querySelector (StickyATC_constructor attrs classes)) = 1"
    "length (frames (StickyATC_connectedCallback querySelector (StickyATC_constructor attrs classes))) = 1"
  using assms
  by (simp_all add: StickyATC_connectedCallback_def StickyATC_constructor_def attach_retry
      requestAnimationFrame_def dataset_def)

text \<open>
  C3, as the code has it. A freshly constructed bar is connected while the target
  selector matches nothing, and \<open>k\<close> animation frames pass, so \<open>_attachObserver\<close> has
  run \<open>k + 1\<close> times. Up to and including the tenth attempt (\<open>k < 10\<close>) the bar only
  counts: its classes are untouched, nothing is written to the console and one more
  frame is pending. The fallback comes with the eleventh attempt, which is the tenth
  retry: from then on the bar carries \<open>is-visible\<close>, the console holds the one
  warning, and no animation frame is pending, however many frames pass.
\<close>

theorem StickyATC_gives_up_after_ten_retries:
  fixes attrs classes querySelector k
  defines "sel \<equiv> or_else (attrs ''data-target-selector'') ''.product-form-buttons''"
  defines "bar \<equiv> StickyATC_frames k querySelector
                   (StickyATC_connectedCallback querySelector (StickyATC_constructor attrs classes))"
  assumes missing: "querySelector sel = None"
  shows "if k < 10
         then classList bar = classes \<and> console bar = [] \<and> frames bar \<noteq> [] \<and>
              retryCount bar = k + 1
         else classList bar = classList_add ''is-visible'' classes \<and>
              ''is-visible'' \<in> set (classList bar) \<and>
              console bar = [''[sticky-atc] Target '' @ [CHR 0x22] @ sel @ [CHR 0x22] @ '' not found.''] \<and>
              frames bar = []"
proof -
  let ?c = "StickyATC_connectedCallback querySelector (StickyATC_constructor attrs classes)"
  note first = connected_first_attempt[of querySelector attrs classes, OF missing[unfolded sel_def]]
  have q: "querySelector (targetSelector ?c) = None"
    using missing by (simp add: first sel_def)
  show ?thesis
  proof (cases "k < 10")
    case True
    then have "retryCount ?c + k \<le> 10" by (simp add: first)
    from frames_retrying[of querySelector ?c k, OF q first(5) this] True show ?thesis
      by (auto simp: bar_def first)
  next
    case False
    then have k: "k = 9 + (1 + (k - 10))" by simp
    let ?nine = "StickyATC_frames 9 querySelector ?c"
    have nine: "classList ?nine = classes" "console ?nine = []" "targetSelector ?nine = sel"
      "retryCount ?nine = 10" "length (frames ?nine) = 1"
      using frames_retrying[of querySelector ?c 9, OF q first(5)] by (simp_all add: first sel_def)
    have q9: "querySelector (targetSelector ?nine) = None"
      using missing nine by simp
    let ?ten = "StickyATC_animationFrame querySelector ?nine"
    note gave_up = frame_gives_up[of querySelector ?nine, OF q9 nine(5) nine(4)]
    have "bar = StickyATC_frames (9 + (1 + (k - 10))) querySelector ?c"
      unfolding bar_def using k by simp
    also have "\<dots> = StickyATC_frames (k - 10) querySelector ?ten"
      unfolding frames_add by simp
    also have "\<dots> = ?ten"
      using gave_up by (simp add: frames_idle)
    finally show ?thesis
      using False gave_up nine by (simp add: classList_add_def)
  qed
qed

theorem StickyATC_gives_up_after_ten_retries_witness:
  "no_document (or_else (Map.empty ''data-target-selector'') ''.product-form-buttons'') = None \<and>
   ''is-visible'' \<in> set (classList (StickyATC_frames 10 no_document
        (StickyATC_connectedCallback no_document (StickyATC_constructor Map.empty [])))) \<and>
   frames (StickyATC_frames 10 no_document
        (StickyATC_connectedCallback no_document (StickyATC_constructor Map.empty []))) = []"
proof -
  have missing: "no_document (or_else (Map.empty ''data-target-selector'') ''.product-form-buttons'') = None"
    by (simp add: no_document_def)
  from StickyATC_gives_up_after_ten_retries[of no_document Map.empty 10 "[]", OF missing] missing
  show ?thesis by (simp add: classList_add_def)
qed

text \<open>
  After ten failed attempts (the connect and nine frames) the bar has not given up: it
  is not visible, has warned of nothing, and the eleventh attempt is scheduled.
\<close>

theorem StickyATC_ten_attempts_not_enough:
  "''is-visible'' \<notin> set (classList (StickyATC_frames 9 no_document
        (StickyATC_connectedCallback no_document fresh_bar))) \<and>
   console (StickyATC_frames 9 no_document
        (StickyATC_connectedCallback no_document fresh_bar)) = [] \<and>
   frames (StickyATC_frames 9 no_document
        (StickyATC_connectedCallback no_document fresh_bar)) = [10]"
  by code_simp

subsection \<open>Anchor-tracking bar: variant updates\<close>

text \<open>
  C4. A \<open>variant:update\<close> event whose product id, read as
  \<open>(data.newProduct?.id ?? data.productId)?.toString()\<close>, is absent or is not the
  element's product id leaves the element exactly as it was: attributes, dataset,
  title and media links, variant text, image and observer are all unchanged.
\<close>

theorem StickyAtcElement_foreign_variant_update_ignored:
  assumes "detail event = Some det" and "data det = Some d"
    and "variant_productId d \<noteq> Some (productId this)"
  shows "StickyAtcElement_handleVariantUpdate page event this = this"
  using assms by (simp add: StickyAtcElement_handleVariantUpdate_def)

theorem StickyAtcElement_foreign_variant_update_ignored_witness:
  "variant_productId other_product_data = Some ''7'' \<and> productId product_bar = ''42'' \<and>
   StickyAtcElement_handleVariantUpdate plain_dom other_product_event product_bar = product_bar"
proof -
  have det: "detail other_product_event
               = Some \<lparr> resource = Some red_variant, data = Some other_product_data \<rparr>"
    by (simp add: other_product_event_def)
  have d: "data \<lparr> resource = Some red_variant, data = Some other_product_data \<rparr>
             = Some other_product_data"
    by simp
  have seven: "variant_productId other_product_data = Some ''7''"
    by (simp add: variant_productId_def other_product_data_def js_toString_def coalesce_def
        decimal.simps)
  have bar: "productId product_bar = ''42''"
    by (simp add: product_bar_def)
  have differs: "variant_productId other_product_data \<noteq> Some (productId product_bar)"
    by (simp add: seven bar)
  from StickyAtcElement_foreign_variant_update_ignored[OF det d differs, of plain_dom] seven bar
  show ?thesis by simp
qed

text \<open>An event without detail or data is ignored as well.\<close>

lemma StickyAtcElement_event_without_data_ignored:
  "detail event = None \<or> (\<exists>det. detail event = Some det \<and> data det = None) \<Longrightarrow>
   StickyAtcElement_handleVariantUpdate page event this = this"
  by (auto simp: StickyAtcElement_handleVariantUpdate_def)

text \<open>An event for the element's own product, by contrast, is rendered.\<close>

lemma StickyAtcElement_own_variant_update_rendered:
  "variantTarget (StickyAtcElement_handleVariantUpdate plain_dom same_product_event product_bar)
     = Some \<lparr> textContent = ''Red'', hidden = False \<rparr>"
  by code_simp

subsection \<open>Anchor-tracking bar: visibility\<close>

text \<open>
  C5, as the code has it. Only the first entry of a batch is read. With \<open>shouldShow\<close>
  standing for "the anchor is not intersecting and its bottom edge is at or above the
  viewport top", the element's \<open>aria-hidden\<close> is \<open>"false"\<close> after the handler exactly
  when \<open>shouldShow\<close> holds. The attributes are written only when that changes the
  state read from \<open>aria-hidden\<close>: then \<open>aria-hidden\<close> and \<open>data-visible\<close> become
  \<open>"false"\<close> and \<open>"true"\<close> (show) or \<open>"true"\<close> and \<open>"false"\<close> (hide). When
  \<open>aria-hidden\<close> already agrees, nothing is written; an empty batch changes nothing.
\<close>

theorem StickyAtcElement_visibility_follows_first_entry:
  fixes entry others this
  defines "shouldShow \<equiv> \<not> isIntersecting entry \<and> boundingClientRect_bottom entry \<le> 0"
  defines "this' \<equiv> StickyAtcElement_handleAnchorIntersect (entry # others) this"
  shows "(attributes this' ''aria-hidden'' = Some ''false'') = shouldShow \<and>
         (if (attributes this ''aria-hidden'' = Some ''false'') = shouldShow
          then this' = this
          else this' = this\<lparr>attributes := (attributes this)
                 (''aria-hidden'' \<mapsto> (if shouldShow then ''false'' else ''true''),
                  ''data-visible'' \<mapsto> (if shouldShow then ''true'' else ''false''))\<rparr>) \<and>
         StickyAtcElement_handleAnchorIntersect [] this = this"
  unfolding this'_def shouldShow_def
  by (auto simp: StickyAtcElement_handleAnchorIntersect_def StickyAtcElement_setVisibility_def
      dataset_set_def Let_def)

theorem StickyAtcElement_visibility_follows_first_entry_witness:
  "attributes (StickyAtcElement_handleAnchorIntersect [entry_gone] product_bar) ''aria-hidden''
     = Some ''false'' \<and>
   attributes (StickyAtcElement_handleAnchorIntersect [entry_gone] product_bar) ''data-visible''
     = Some ''true''"
  using StickyAtcElement_visibility_follows_first_entry
          [where this = product_bar and entry = entry_gone and others = "[]"]
  by (simp add: entry_gone_def product_bar_def hidden_markup_def)

text \<open>
  Two inputs at which the claim as worded fails. A bar whose markup says
  \<open>aria-hidden="true"\<close> and nothing else receives an intersecting entry: it is
  already hidden, so nothing is written and \<open>data-visible\<close> stays absent. And in a
  batch of two entries the second one, not intersecting and above the viewport, asks
  for the bar to be shown and is never read.
\<close>

theorem StickyAtcElement_visibility_not_per_entry:
  "attributes (StickyAtcElement_handleAnchorIntersect [entry_full] product_bar) ''data-visible''
     = None \<and>
   \<not> isIntersecting entry_gone \<and> boundingClientRect_bottom entry_gone \<le> 0 \<and>
   attributes (StickyAtcElement_handleAnchorIntersect [entry_full, entry_gone] product_bar)
     ''aria-hidden'' = Some ''true''"
  by (simp add: StickyAtcElement_handleAnchorIntersect_def StickyAtcElement_setVisibility_def
      entry_full_def entry_gone_def product_bar_def hidden_markup_def)

subsection \<open>Video player: what the helpers leave alone\<close>

lemma truthy_or_else: "truthy x \<Longrightarrow> or_else x [] \<noteq> []"
  by (auto simp: truthy_def or_else_def split: option.splits)

lemma getCurrentVideo_video:
  "media this = Some n \<Longrightarrow> ''mk-video__element'' \<in> set (className n) \<Longrightarrow> kind n = Video v \<Longrightarrow>
   priv_getCurrentVideo this = Some n"
  by (simp add: priv_getCurrentVideo_def media_query_def)

lemma getCurrentVideo_cases:
  "priv_getCurrentVideo this = Some n \<Longrightarrow> media this = Some n \<and> kind n \<noteq> OtherElement"
  by (auto simp: priv_getCurrentVideo_def media_query_def
      split: option.splits if_splits element_kind.splits)

lemma loadMP4_frame:
  "priv_isLoaded (priv_loadMP4 b this) = priv_isLoaded this"
  "priv_observer (priv_loadMP4 b this) = priv_observer this"
  "classList (priv_loadMP4 b this) = classList this"
  "attributes (priv_loadMP4 b this) = attributes this"
  by (simp_all add: priv_loadMP4_def Let_def set_kind_def console_warn_def
      split: option.splits element_kind.splits)

lemma loadYouTube_frame:
  "priv_isLoaded (priv_loadYouTube b this) = priv_isLoaded this"
  "priv_observer (priv_loadYouTube b this) = priv_observer this"
  "classList (priv_loadYouTube b this) = classList this"
  "attributes (priv_loadYouTube b this) = attributes this"
  by (simp_all add: priv_loadYouTube_def Let_def set_kind_def console_warn_def
      split: option.splits element_kind.splits)

lemma load_keeps_playing:
  "priv_isPlaying (priv_loadMP4 b this) = priv_isPlaying this"
  "priv_isPlaying (priv_loadYouTube b this) = priv_isPlaying this"
  by (simp_all add: priv_loadMP4_def priv_loadYouTube_def Let_def set_kind_def console_warn_def
      split: option.splits element_kind.splits)

lemma loadVideo_keeps_playing:
  "priv_isPlaying (priv_loadVideo b this) = priv_isPlaying this"
  by (simp add: priv_loadVideo_def Let_def load_keeps_playing)

lemma loadVideo_flags:
  assumes "\<not> priv_isLoaded this"
  shows "priv_isLoaded (priv_loadVideo b this)"
    "''is-loaded'' \<in> set (classList (priv_loadVideo b this))"
    "priv_observer (priv_loadVideo b this) = priv_observer this"
    "attributes (priv_loadVideo b this) = attributes this"
  using assms
  by (simp_all add: priv_loadVideo_def Let_def classList_add_mem loadMP4_frame loadYouTube_frame)

lemma playVideo_frame:
  "priv_isLoaded (priv_playVideo b this) = priv_isLoaded this"
  "priv_observer (priv_playVideo b this) = priv_observer this"
  by (simp_all add: priv_playVideo_def Let_def set_kind_def
      split: option.splits element_kind.splits)

lemma playVideo_keeps_class:
  "c \<in> set (classList this) \<Longrightarrow> c \<in> set (classList (priv_playVideo b this))"
  by (simp add: priv_playVideo_def Let_def set_kind_def classList_add_def
      split: option.splits element_kind.splits)

lemma playVideo_sources:
  "map_option src (the_video (priv_playVideo b this)) = map_option src (the_video this) \<and>
   map_option frame_src (the_iframe (priv_playVideo b this)) = map_option frame_src (the_iframe this)"
proof (cases "priv_getCurrentVideo this")
  case None
  then show ?thesis by (simp add: priv_playVideo_def Let_def)
next
  case (Some n)
  from getCurrentVideo_cases[OF Some] have m: "media this = Some n" by simp
  show ?thesis
  proof (cases "kind n")
    case (Video w)
    then show ?thesis using Some m
      by (simp add: priv_playVideo_def Let_def set_kind_def the_video_def the_iframe_def)
  next
    case (IFrame g)
    then show ?thesis using Some m
      by (simp add: priv_playVideo_def Let_def set_kind_def the_video_def the_iframe_def
          postMessage_def)
  next
    case OtherElement
    then show ?thesis using Some m
      by (simp add: priv_playVideo_def Let_def set_kind_def the_video_def the_iframe_def)
  qed
qed

lemma playVideo_video:
  assumes "media this = Some n" "''mk-video__element'' \<in> set (className n)" "kind n = Video v"
    "\<not> priv_isPlaying this"
  shows "priv_playVideo b this =
     this\<lparr> container := map_option (\<lambda>d. []) (container this),
           media := Some (n\<lparr>kind := Video (v\<lparr>calls := calls v @ [Play]\<rparr>)\<rparr>),
           pendingPlay := (if play_returns_promise b then pendingPlay this + 1
                           else pendingPlay this) \<rparr>"
  using assms by (simp add: priv_playVideo_def getCurrentVideo_video Let_def set_kind_def)

lemma pauseVideo_video:
  "media this = Some n \<Longrightarrow> ''mk-video__element'' \<in> set (className n) \<Longrightarrow> kind n = Video v \<Longrightarrow>
   priv_isPlaying this \<Longrightarrow>
   MkVideoPlayer_pauseVideo this =
     this\<lparr> media := Some (n\<lparr>kind := Video (v\<lparr>calls := calls v @ [Pause]\<rparr>)\<rparr>),
           priv_isPlaying := False,
           classList := classList_remove ''is-playing'' (classList this) \<rparr>"
  by (simp add: MkVideoPlayer_pauseVideo_def getCurrentVideo_video set_kind_def)

lemma bind_frame:
  "priv_isLoaded (priv_bindPlayButtonEvents this) = priv_isLoaded this"
  "priv_observer (priv_bindPlayButtonEvents this) = priv_observer this"
  "classList (priv_bindPlayButtonEvents this) = classList this"
  "dataset (priv_bindPlayButtonEvents this) k = dataset this k"
  "media (priv_bindPlayButtonEvents this) = media this"
  by (simp_all add: priv_bindPlayButtonEvents_def dataset_def)

lemma reset_rearm_fields:
  "priv_isPlaying (reset_rearm l this) = priv_isPlaying this"
  "priv_isLoaded (reset_rearm l this) = priv_isLoaded this"
  "classList (reset_rearm l this) = classList this"
  "media (reset_rearm l this) = media this"
  "priv_observer (reset_rearm l this) =
     (if l \<and> priv_observer this \<noteq> None
      then Some \<lparr> io_serial = created this, io_rootMargin = ''50px'',
                   io_threshold = [0.1], io_targets = [Self] \<rparr>
      else priv_observer this)"
  by (simp_all add: reset_rearm_def priv_setupIntersectionObserver_def split: option.splits)

text \<open>The two concrete players after the steps that define them.\<close>

lemma loaded_player_media:
  "media loaded_player
     = Some \<lparr> className = [''mk-video__element''],
              kind = Video \<lparr> src = ''hero.mp4'', currentSrc = [], poster = [],
                             currentTime = 0, calls = [Load, Play] \<rparr> \<rparr>"
  by code_simp

lemma loaded_player_state:
  "priv_isLoaded loaded_player \<and> dataset loaded_player ''lazy-load'' = Some ''true'' \<and>
   priv_observer loaded_player
     = Some \<lparr> io_serial = 0, io_rootMargin = ''50px'', io_threshold = [0.1], io_targets = [] \<rparr> \<and>
   created loaded_player = 1"
  by code_simp

subsection \<open>Video player: reset with unload\<close>

text \<open>
  C1, as the code has it. For a player whose media element is a video element,
  \<open>reset({unload: true})\<close> (with or without \<open>disableAutoplay\<close>) leaves
  \<open>isPlaying()\<close> false, the video's \<open>src\<close> empty, the loaded flag false and the class
  \<open>is-loaded\<close> removed. The lazy-load observer is re-armed only when
  \<open>data-lazy-load\<close> is \<open>"true"\<close> and the player holds an observer at that moment: then
  a newly constructed observer, observing the player, takes its place. When the player
  holds no observer, none is installed.
\<close>

theorem MkVideoPlayer_reset_unload_mp4:
  fixes d this
  assumes el: "media this = Some n" "''mk-video__element'' \<in> set (className n)" "kind n = Video v"
  defines "this' \<equiv> MkVideoPlayer_reset (ResetObject (Some True) d) this"
  shows "\<not> MkVideoPlayer_isPlaying this' \<and>
         map_option src (the_video this') = Some [] \<and>
         \<not> priv_isLoaded this' \<and>
         ''is-loaded'' \<notin> set (classList this') \<and>
         priv_observer this' =
           (if dataset this ''lazy-load'' = Some ''true'' \<and> priv_observer this \<noteq> None
            then Some \<lparr> io_serial = created this, io_rootMargin = ''50px'',
                         io_threshold = [0.1], io_targets = [Self] \<rparr>
            else priv_observer this)"
proof (cases "priv_isPlaying this")
  case True
  note p = pauseVideo_video[OF el True]
  show ?thesis
    unfolding this'_def MkVideoPlayer_reset_def
    using el True
    by (simp add: p Let_def priv_getCurrentVideo_def media_query_def set_kind_def dataset_set_def
        reset_unload_def reset_rearm_fields the_video_def
        MkVideoPlayer_isPlaying_def classList_remove_mem dataset_def)
next
  case False
  show ?thesis
    unfolding this'_def MkVideoPlayer_reset_def
    using el False
    by (simp add: Let_def priv_getCurrentVideo_def media_query_def set_kind_def dataset_set_def
        reset_unload_def reset_rearm_fields the_video_def
        MkVideoPlayer_isPlaying_def classList_remove_mem dataset_def)
qed

theorem MkVideoPlayer_reset_unload_mp4_witness:
  "priv_isLoaded loaded_player \<and> dataset loaded_player ''lazy-load'' = Some ''true'' \<and>
   \<not> MkVideoPlayer_isPlaying (MkVideoPlayer_reset (ResetObject (Some True) None) loaded_player) \<and>
   map_option src (the_video (MkVideoPlayer_reset (ResetObject (Some True) None) loaded_player))
     = Some [] \<and>
   ''is-loaded'' \<notin> set (classList (MkVideoPlayer_reset (ResetObject (Some True) None) loaded_player)) \<and>
   priv_observer (MkVideoPlayer_reset (ResetObject (Some True) None) loaded_player)
     = Some \<lparr> io_serial = 1, io_rootMargin = ''50px'', io_threshold = [0.1], io_targets = [Self] \<rparr>"
proof -
  have cls: "''mk-video__element'' \<in> set (className \<lparr> className = [''mk-video__element''],
              kind = Video \<lparr> src = ''hero.mp4'', currentSrc = [], poster = [],
                             currentTime = 0, calls = [Load, Play] \<rparr> \<rparr>)"
    by simp
  have knd: "kind \<lparr> className = [''mk-video__element''],
              kind = Video \<lparr> src = ''hero.mp4'', currentSrc = [], poster = [],
                             currentTime = 0, calls = [Load, Play] \<rparr> \<rparr>
             = Video \<lparr> src = ''hero.mp4'', currentSrc = [], poster = [],
                             currentTime = 0, calls = [Load, Play] \<rparr>"
    by simp
  from MkVideoPlayer_reset_unload_mp4[OF loaded_player_media cls knd, of None] loaded_player_state
  show ?thesis by simp
qed

text \<open>
  The detached player is a loaded MP4 player with \<open>data-lazy-load="true"\<close>, yet after
  \<open>reset({unload: true})\<close> it holds no observer: \<open>disconnectedCallback\<close> had set
  \<open>#observer\<close> to null, and \<open>reset\<close> re-arms only an observer that exists.
\<close>

theorem MkVideoPlayer_reset_without_observer:
  "dataset detached_player ''lazy-load'' = Some ''true'' \<and>
   priv_isLoaded detached_player \<and>
   map_option src (the_video detached_player) = Some ''hero.mp4'' \<and>
   priv_observer (MkVideoPlayer_reset (ResetObject (Some True) None) detached_player) = None"
  by code_simp

subsection \<open>Video player: loading on connect\<close>

lemma loadVideo_mp4_media:
  assumes "\<not> priv_isLoaded this" "or_else (dataset this ''video-type'') ''mp4'' \<noteq> ''youtube''"
    "truthy (dataset this ''video-desktop'')"
    "media this = Some n" "''mk-video__element'' \<in> set (className n)" "kind n = Video v"
  shows "media (priv_loadVideo b this) =
     Some (n\<lparr>kind := Video (v
       \<lparr> src := (if (if currentSrc v \<noteq> [] then currentSrc v else read_src b (src v))
                      = or_else (if matches_mobile b \<and> truthy (dataset this ''video-mobile'')
                                 then dataset this ''video-mobile''
                                 else dataset this ''video-desktop'') []
                  then src v
                  else or_else (if matches_mobile b \<and> truthy (dataset this ''video-mobile'')
                                then dataset this ''video-mobile''
                                else dataset this ''video-desktop'') []),
         poster := (if truthy (if matches_mobile b \<and> truthy (dataset this ''poster-mobile'')
                               then dataset this ''poster-mobile''
                               else dataset this ''poster-desktop'')
                    then or_else (if matches_mobile b \<and> truthy (dataset this ''poster-mobile'')
                                  then dataset this ''poster-mobile''
                                  else dataset this ''poster-desktop'') []
                    else poster v),
         calls := calls v @
                  (if (if currentSrc v \<noteq> [] then currentSrc v else read_src b (src v))
                        = or_else (if matches_mobile b \<and> truthy (dataset this ''video-mobile'')
                                   then dataset this ''video-mobile''
                                   else dataset this ''video-desktop'') []
                   then [] else [Load]) \<rparr>)\<rparr>)"
proof -
  have t: "truthy (if matches_mobile b \<and> truthy (dataset this ''video-mobile'')
                   then dataset this ''video-mobile'' else dataset this ''video-desktop'')"
    using assms(3) by simp
  have ne: "or_else (if matches_mobile b \<and> truthy (dataset this ''video-mobile'')
                     then dataset this ''video-mobile'' else dataset this ''video-desktop'') []
              \<noteq> []"
    using t by (rule truthy_or_else)
  show ?thesis
    using assms t ne
    by (simp add: priv_loadVideo_def priv_loadMP4_def Let_def media_query_def set_kind_def)
qed

lemma loadVideo_youtube_src:
  assumes "\<not> priv_isLoaded this" "or_else (dataset this ''video-type'') ''mp4'' = ''youtube''"
    "truthy (dataset this ''youtube-desktop'')"
    "media this = Some n" "''mk-video__iframe'' \<in> set (className n)" "kind n = IFrame f"
  shows "map_option frame_src (the_iframe (priv_loadVideo b this)) =
     Some (if read_src b (frame_src f)
                = or_else (if matches_mobile b \<and> truthy (dataset this ''youtube-mobile'')
                           then dataset this ''youtube-mobile''
                           else dataset this ''youtube-desktop'') []
           then frame_src f
           else or_else (if matches_mobile b \<and> truthy (dataset this ''youtube-mobile'')
                         then dataset this ''youtube-mobile''
                         else dataset this ''youtube-desktop'') [])"
proof -
  have t: "truthy (if matches_mobile b \<and> truthy (dataset this ''youtube-mobile'')
                   then dataset this ''youtube-mobile'' else dataset this ''youtube-desktop'')"
    using assms(3) by simp
  have ne: "or_else (if matches_mobile b \<and> truthy (dataset this ''youtube-mobile'')
                     then dataset this ''youtube-mobile'' else dataset this ''youtube-desktop'') []
              \<noteq> []"
    using t by (rule truthy_or_else)
  show ?thesis
    using assms t ne
    by (auto simp: priv_loadVideo_def priv_loadYouTube_def Let_def media_query_def set_kind_def
        the_iframe_def)
qed

text \<open>
  C6, as the code has it. A player that has not loaded yet and whose
  \<open>data-lazy-load\<close> is not \<open>"true"\<close> is marked loaded by \<open>connectedCallback\<close> itself:
  the loaded flag is set, the class \<open>is-loaded\<close> is there, and no intersection observer
  is set up or waited for. When the desktop source of its media kind is configured and
  the matching media element is in its subtree, the selected source (the mobile one on
  a narrow viewport when configured, else the desktop one) is compared with the address
  read from the element: \<open>currentSrc\<close>, or what the \<open>src\<close> getter returns when
  \<open>currentSrc\<close> is empty, for a video; what the \<open>src\<close> getter returns for an iframe.

  For a video: if the two differ, \<open>src\<close> is assigned the selected source and
  \<open>load()\<close> is called; if they are equal, \<open>src\<close> is not assigned and \<open>load()\<close> is
  not called. Either way the selected poster is assigned when one is configured, and
  \<open>play()\<close> is called when \<open>data-autoplay\<close> is \<open>"true"\<close> and the player is not
  playing. Nothing else of the video element changes. For an iframe: \<open>src\<close> is
  assigned the selected source if the two differ and is kept if they are equal.
\<close>

theorem MkVideoPlayer_connect_loads_when_not_lazy:
  fixes b this n v f
  assumes lazy: "dataset this ''lazy-load'' \<noteq> Some ''true''" and fresh: "\<not> priv_isLoaded this"
  defines "this' \<equiv> MkVideoPlayer_connectedCallback b this"
  defines "videoSrc \<equiv> or_else (if matches_mobile b \<and> truthy (dataset this ''video-mobile'')
                            then dataset this ''video-mobile'' else dataset this ''video-desktop'') []"
  defines "posterSrc \<equiv> (if matches_mobile b \<and> truthy (dataset this ''poster-mobile'')
                          then dataset this ''poster-mobile'' else dataset this ''poster-desktop'')"
  defines "youtubeSrc \<equiv> or_else (if matches_mobile b \<and> truthy (dataset this ''youtube-mobile'')
                            then dataset this ''youtube-mobile'' else dataset this ''youtube-desktop'') []"
  defines "current \<equiv> (if currentSrc v \<noteq> [] then currentSrc v else read_src b (src v))"
  shows "priv_isLoaded this' \<and> ''is-loaded'' \<in> set (classList this') \<and>
         priv_observer this' = priv_observer this \<and>
         (or_else (dataset this ''video-type'') ''mp4'' \<noteq> ''youtube'' \<and>
          truthy (dataset this ''video-desktop'') \<and>
          media this = Some n \<and> ''mk-video__element'' \<in> set (className n) \<and> kind n = Video v \<longrightarrow>
            the_video this' =
              Some (v\<lparr> src := (if current = videoSrc then src v else videoSrc),
                       poster := (if truthy posterSrc then or_else posterSrc [] else poster v),
                       calls := calls v @ (if current = videoSrc then [] else [Load])
                                        @ (if dataset this ''autoplay'' = Some ''true'' \<and>
                                              \<not> priv_isPlaying this
                                           then [Play] else []) \<rparr>)) \<and>
         (or_else (dataset this ''video-type'') ''mp4'' = ''youtube'' \<and>
          truthy (dataset this ''youtube-desktop'') \<and>
          media this = Some n \<and> ''mk-video__iframe'' \<in> set (className n) \<and> kind n = IFrame f \<longrightarrow>
            map_option frame_src (the_iframe this') =
              Some (if read_src b (frame_src f) = youtubeSrc then frame_src f else youtubeSrc))"
proof -
  let ?bound = "priv_bindPlayButtonEvents this"
  let ?loaded = "priv_loadVideo b ?bound"
  have bound: "\<not> priv_isLoaded ?bound"
    using fresh by (simp add: bind_frame)
  have playing: "priv_isPlaying ?loaded = priv_isPlaying this"
    by (simp add: loadVideo_keeps_playing priv_bindPlayButtonEvents_def)
  have conn: "this' = (if dataset this ''autoplay'' = Some ''true''
                       then priv_playVideo b ?loaded else ?loaded)"
    using lazy by (simp add: this'_def MkVideoPlayer_connectedCallback_def Let_def)
  note flags = loadVideo_flags[OF bound, of b]
  have 1: "priv_isLoaded this'" "''is-loaded'' \<in> set (classList this')"
    "priv_observer this' = priv_observer this"
    using flags by (simp_all add: conn playVideo_frame playVideo_keeps_class bind_frame)
  have 2: "map_option frame_src (the_iframe this') = map_option frame_src (the_iframe ?loaded)"
    using playVideo_sources[of b ?loaded] by (simp add: conn)
  have mp4: "the_video this' =
              Some (v\<lparr> src := (if current = videoSrc then src v else videoSrc),
                       poster := (if truthy posterSrc then or_else posterSrc [] else poster v),
                       calls := calls v @ (if current = videoSrc then [] else [Load])
                                        @ (if dataset this ''autoplay'' = Some ''true'' \<and>
                                              \<not> priv_isPlaying this
                                           then [Play] else []) \<rparr>)"
    if h: "or_else (dataset this ''video-type'') ''mp4'' \<noteq> ''youtube''"
      "truthy (dataset this ''video-desktop'')"
      "media this = Some n" "''mk-video__element'' \<in> set (className n)" "kind n = Video v"
  proof -
    let ?v = "v\<lparr> src := (if current = videoSrc then src v else videoSrc),
                   poster := (if truthy posterSrc then or_else posterSrc [] else poster v),
                   calls := calls v @ (if current = videoSrc then [] else [Load]) \<rparr>"
    have m: "media ?loaded = Some (n\<lparr>kind := Video ?v\<rparr>)"
      using loadVideo_mp4_media[of ?bound n v b] h bound
      unfolding videoSrc_def posterSrc_def current_def by (simp only: bind_frame) simp
    show ?thesis
    proof (cases "dataset this ''autoplay'' = Some ''true'' \<and> \<not> priv_isPlaying this")
      case True
      have idle: "\<not> priv_isPlaying ?loaded" using True playing by simp
      have "priv_playVideo b ?loaded =
          ?loaded\<lparr> container := map_option (\<lambda>d. []) (container ?loaded),
           media := Some ((n\<lparr>kind := Video ?v\<rparr>)
                            \<lparr>kind := Video (?v\<lparr>calls := calls ?v @ [Play]\<rparr>)\<rparr>),
           pendingPlay := (if play_returns_promise b then pendingPlay ?loaded + 1
                           else pendingPlay ?loaded) \<rparr>"
        by (rule playVideo_video[OF m _ _ idle]) (simp_all add: h)
      then show ?thesis using True by (simp add: conn the_video_def)
    next
      case False
      have "this' = ?loaded"
        using False playing by (auto simp: conn priv_playVideo_def)
      then show ?thesis using False m by (auto simp: the_video_def)
    qed
  qed
  have yt: "map_option frame_src (the_iframe this') =
              Some (if read_src b (frame_src f) = youtubeSrc then frame_src f else youtubeSrc)"
    if "or_else (dataset this ''video-type'') ''mp4'' = ''youtube''"
      "truthy (dataset this ''youtube-desktop'')"
      "media this = Some n" "''mk-video__iframe'' \<in> set (className n)" "kind n = IFrame f"
    using loadVideo_youtube_src[of ?bound n f b] that bound
    unfolding 2 youtubeSrc_def by (simp only: bind_frame) simp
  show ?thesis
    using 1 mp4 yt by blast
qed

text \<open>
  Three players: an MP4 player without a source yet (the source is assigned, then
  \<open>load()\<close> and \<open>play()\<close>), a YouTube player, and a player whose video already shows
  the configured source (\<open>src\<close> stays empty and \<open>load()\<close> is not called, while the
  poster is assigned and \<open>play()\<close> is called).
\<close>

theorem MkVideoPlayer_connect_loads_when_not_lazy_witness:
  "priv_isLoaded (MkVideoPlayer_connectedCallback desktop_browser (mp4_player ''false'')) \<and>
   ''is-loaded'' \<in> set (classList (MkVideoPlayer_connectedCallback desktop_browser (mp4_player ''false''))) \<and>
   the_video (MkVideoPlayer_connectedCallback desktop_browser (mp4_player ''false''))
     = Some \<lparr> src = ''hero.mp4'', currentSrc = [], poster = [], currentTime = 0,
              calls = [Load, Play] \<rparr> \<and>
   map_option frame_src (the_iframe (MkVideoPlayer_connectedCallback desktop_browser youtube_player))
     = Some ''https://www.youtube.com/embed/x'' \<and>
   the_video (MkVideoPlayer_connectedCallback desktop_browser sourced_autoplay_player)
     = Some \<lparr> src = [], currentSrc = ''https://cdn.example/hero.mp4'', poster = ''p.jpg'',
              currentTime = 0, calls = [Play] \<rparr>"
proof -
  have m1: "dataset (mp4_player ''false'') ''lazy-load'' \<noteq> Some ''true''"
    by (simp add: mp4_player_def dataset_def)
  have m2: "\<not> priv_isLoaded (mp4_player ''false'')"
    by (simp add: mp4_player_def)
  have y1: "dataset youtube_player ''lazy-load'' \<noteq> Some ''true''"
    by (simp add: youtube_player_def dataset_def)
  have y2: "\<not> priv_isLoaded youtube_player"
    by (simp add: youtube_player_def)
  have s1: "dataset sourced_autoplay_player ''lazy-load'' \<noteq> Some ''true''"
    by (simp add: sourced_autoplay_player_def sourced_player_def dataset_def)
  have s2: "\<not> priv_isLoaded sourced_autoplay_player"
    by (simp add: sourced_autoplay_player_def sourced_player_def)
  note mp4 = MkVideoPlayer_connect_loads_when_not_lazy[OF m1 m2,
      where b = desktop_browser
        and n = "\<lparr> className = [''mk-video__element''],
                   kind = Video \<lparr> src = [], currentSrc = [], poster = [],
                                  currentTime = 0, calls = [] \<rparr> \<rparr>"
        and v = "\<lparr> src = [], currentSrc = [], poster = [], currentTime = 0, calls = [] \<rparr>"]
  note yt = MkVideoPlayer_connect_loads_when_not_lazy[OF y1 y2,
      where b = desktop_browser
        and n = "\<lparr> className = [''mk-video__element'', ''mk-video__iframe''],
                   kind = IFrame \<lparr> frame_src = [], contentWindow = True, posted = [] \<rparr> \<rparr>"
        and f = "\<lparr> frame_src = [], contentWindow = True, posted = [] \<rparr>"]
  note kept = MkVideoPlayer_connect_loads_when_not_lazy[OF s1 s2,
      where b = desktop_browser
        and n = "\<lparr> className = [''mk-video__element''],
                   kind = Video \<lparr> src = [], currentSrc = ''https://cdn.example/hero.mp4'',
                                  poster = [], currentTime = 0, calls = [] \<rparr> \<rparr>"
        and v = "\<lparr> src = [], currentSrc = ''https://cdn.example/hero.mp4'', poster = [],
                   currentTime = 0, calls = [] \<rparr>"]
  have a: "priv_isLoaded (MkVideoPlayer_connectedCallback desktop_browser (mp4_player ''false''))"
    "''is-loaded'' \<in> set (classList (MkVideoPlayer_connectedCallback desktop_browser (mp4_player ''false'')))"
    using mp4 by simp_all
  have b: "the_video (MkVideoPlayer_connectedCallback desktop_browser (mp4_player ''false''))
     = Some \<lparr> src = ''hero.mp4'', currentSrc = [], poster = [], currentTime = 0,
              calls = [Load, Play] \<rparr>"
    using mp4
    by (simp add: mp4_player_def dataset_def truthy_def or_else_def desktop_browser_def
        resolve_on_shop_def)
  have c: "map_option frame_src (the_iframe (MkVideoPlayer_connectedCallback desktop_browser youtube_player))
     = Some ''https://www.youtube.com/embed/x''"
    using yt
    by (simp add: youtube_player_def dataset_def truthy_def or_else_def desktop_browser_def
        resolve_on_shop_def)
  have d: "the_video (MkVideoPlayer_connectedCallback desktop_browser sourced_autoplay_player)
     = Some \<lparr> src = [], currentSrc = ''https://cdn.example/hero.mp4'', poster = ''p.jpg'',
              currentTime = 0, calls = [Play] \<rparr>"
    using kept
    by (simp add: sourced_autoplay_player_def sourced_player_def dataset_def truthy_def
        or_else_def desktop_browser_def resolve_on_shop_def)
  show ?thesis using a b c d by simp
qed

text \<open>
  The player below is not lazy and has its desktop source configured, and its video
  element already shows that source. Connecting it adds \<open>is-loaded\<close>, but the video's
  \<open>src\<close> is not set and \<open>load()\<close> is not called.
\<close>

theorem MkVideoPlayer_connect_keeps_current_source:
  "dataset sourced_player ''lazy-load'' = Some ''false'' \<and>
   dataset sourced_player ''video-desktop'' = Some ''https://cdn.example/hero.mp4'' \<and>
   ''is-loaded'' \<in> set (classList (MkVideoPlayer_connectedCallback desktop_browser sourced_player)) \<and>
   map_option src (the_video (MkVideoPlayer_connectedCallback desktop_browser sourced_player))
     = Some [] \<and>
   map_option calls (the_video (MkVideoPlayer_connectedCallback desktop_browser sourced_player))
     = Some []"
  by code_simp

subsection \<open>Video player: a rejected play()\<close>

text \<open>
  C8. A player that is not playing calls \<open>play()\<close> on its video element and gets a
  promise; the promise is rejected. The chain \<open>then(...).catch(...)\<close> settles as
  fulfilled, so the rejection goes no further; the playing flag is still false and the
  class list is what it was before the attempt (\<open>is-playing\<close> is not added); the
  attribute \<open>data-autoplay\<close> is removed if it was \<open>"true"\<close> and otherwise untouched;
  and the console holds one more warning.
\<close>

theorem MkVideoPlayer_play_rejection_caught:
  fixes b this err
  assumes el: "media this = Some n" "''mk-video__element'' \<in> set (className n)" "kind n = Video v"
    and idle: "\<not> priv_isPlaying this" and promise: "play_returns_promise b"
  defines "started \<equiv> priv_playVideo b this"
  defines "outcome \<equiv> playPromise_settled (Rejected err) started"
  shows "pendingPlay started = pendingPlay this + 1 \<and>
         fst outcome = Fulfilled \<and>
         \<not> priv_isPlaying (snd outcome) \<and>
         classList (snd outcome) = classList this \<and>
         dataset (snd outcome) ''autoplay'' =
           (if dataset this ''autoplay'' = Some ''true'' then None else dataset this ''autoplay'') \<and>
         console (snd outcome) = console this @ [''MkVideoPlayer: Video playback failed '' @ err]"
  unfolding outcome_def started_def playVideo_video[OF el idle]
  using idle promise
  by (simp add: playPromise_settled_def promise_then_def promise_catch_def priv_playVideo_catch_def
      console_warn_def dataset_def Let_def)

theorem MkVideoPlayer_play_rejection_caught_witness:
  "\<not> priv_isPlaying (mp4_player ''false'') \<and> play_returns_promise desktop_browser \<and>
   dataset (mp4_player ''false'') ''autoplay'' = Some ''true'' \<and>
   fst (playPromise_settled (Rejected ''NotAllowedError'')
          (priv_playVideo desktop_browser (mp4_player ''false''))) = Fulfilled \<and>
   \<not> priv_isPlaying (snd (playPromise_settled (Rejected ''NotAllowedError'')
          (priv_playVideo desktop_browser (mp4_player ''false'')))) \<and>
   dataset (snd (playPromise_settled (Rejected ''NotAllowedError'')
          (priv_playVideo desktop_browser (mp4_player ''false'')))) ''autoplay'' = None"
proof -
  have m: "media (mp4_player ''false'')
             = Some \<lparr> className = [''mk-video__element''],
                      kind = Video \<lparr> src = [], currentSrc = [], poster = [],
                                     currentTime = 0, calls = [] \<rparr> \<rparr>"
    by (simp add: mp4_player_def)
  have cls: "''mk-video__element'' \<in> set (className \<lparr> className = [''mk-video__element''],
                      kind = Video \<lparr> src = [], currentSrc = [], poster = [],
                                     currentTime = 0, calls = [] \<rparr> \<rparr>)"
    by simp
  have knd: "kind \<lparr> className = [''mk-video__element''],
                    kind = Video \<lparr> src = [], currentSrc = [], poster = [],
                                   currentTime = 0, calls = [] \<rparr> \<rparr>
              = Video \<lparr> src = [], currentSrc = [], poster = [], currentTime = 0, calls = [] \<rparr>"
    by simp
  have idle: "\<not> priv_isPlaying (mp4_player ''false'')"
    by (simp add: mp4_player_def)
  have promise: "play_returns_promise desktop_browser"
    by (simp add: desktop_browser_def)
  have auto_on: "dataset (mp4_player ''false'') ''autoplay'' = Some ''true''"
    by (simp add: mp4_player_def dataset_def)
  from MkVideoPlayer_play_rejection_caught[OF m cls knd idle promise, of "''NotAllowedError''"]
    idle promise auto_on
  show ?thesis by simp
qed

subsection \<open>Video player: the two forms of the reset argument\<close>

text \<open>
  C10. In every state of the player, \<open>reset(true)\<close> is \<open>reset({unload: true})\<close>,
  and \<open>reset(false)\<close>, \<open>reset()\<close> and \<open>reset({})\<close> are each
  \<open>reset({unload: false, disableAutoplay: false})\<close>: the resulting states are equal.
\<close>

theorem MkVideoPlayer_reset_legacy_boolean:
  "MkVideoPlayer_reset (ResetBoolean True) this
     = MkVideoPlayer_reset (ResetObject (Some True) None) this \<and>
   MkVideoPlayer_reset (ResetBoolean False) this
     = MkVideoPlayer_reset (ResetObject (Some False) (Some False)) this \<and>
   MkVideoPlayer_reset ResetUndefined this
     = MkVideoPlayer_reset (ResetObject (Some False) (Some False)) this \<and>
   MkVideoPlayer_reset (ResetObject None None) this
     = MkVideoPlayer_reset (ResetObject (Some False) (Some False)) this"
  by (simp add: MkVideoPlayer_reset_def reset_unload_def reset_disableAutoplay_def)

theorem MkVideoPlayer_reset_legacy_boolean_witness:
  "MkVideoPlayer_reset (ResetBoolean True) loaded_player
     = MkVideoPlayer_reset (ResetObject (Some True) None) loaded_player \<and>
   \<not> priv_isLoaded (MkVideoPlayer_reset (ResetBoolean True) loaded_player) \<and>
   MkVideoPlayer_reset ResetUndefined loaded_player
     = MkVideoPlayer_reset (ResetObject (Some False) (Some False)) loaded_player \<and>
   priv_isLoaded (MkVideoPlayer_reset ResetUndefined loaded_player)"
proof -
  have unloaded: "\<not> priv_isLoaded (MkVideoPlayer_reset (ResetObject (Some True) None) loaded_player)"
    by code_simp
  have kept: "priv_isLoaded (MkVideoPlayer_reset (ResetObject (Some False) (Some False)) loaded_player)"
    by code_simp
  from MkVideoPlayer_reset_legacy_boolean[of loaded_player] unloaded kept
  show ?thesis by simp
qed

subsection \<open>Description block: content that exactly fits\<close>

lemma updateOverflowState_fits:
  assumes "content this = Some c" "toggle this = Some t"
    and "scrollHeight c \<le> priv_collapsedHeight this + 1 \<or> priv_collapsedHeight this \<le> 0"
  shows "priv_updateOverflowState this =
     (dataset_set ''expanded'' ''false'' (dataset_set ''has-overflow'' ''false'' this))
              \<lparr> priv_expanded := False,
                content := Some (c\<lparr>style_maxHeight := MaxNone\<rparr>),
                toggle := Some (t\<lparr>toggle_hidden := True, aria_expanded := Some ''false''\<rparr>) \<rparr>"
  using assms by (auto simp: priv_updateOverflowState_def Let_def)

lemma calculateCollapsedHeight_nonneg: "0 \<le> priv_calculateCollapsedHeight this"
  by (simp add: priv_calculateCollapsedHeight_def Let_def split: option.splits)

text \<open>
  C7. The block has its content and toggle nodes. Write \<open>fits s\<close> for: the toggle is
  hidden, \<open>data-has-overflow\<close> is \<open>"false"\<close>, the expanded flag is false and the
  content's \<open>max-height\<close> is \<open>none\<close>. If the content's scroll height equals the
  stored collapsed height, the overflow check ends in such a state. If it equals the
  collapsed height as computed from line height and line clamp, then initialisation
  and a window resize (both store the computed height first) end in such a state, and
  so does a content resize on a block that is not expanded.
\<close>

theorem ProductDescriptionBlock_exact_fit_not_overflowing:
  fixes this c t
  assumes refs: "content this = Some c" "toggle this = Some t"
  defines "fits \<equiv> (\<lambda>s. map_option toggle_hidden (toggle s) = Some True \<and>
                        dataset s ''has-overflow'' = Some ''false'' \<and>
                        \<not> priv_expanded s \<and>
                        map_option style_maxHeight (content s) = Some MaxNone)"
  shows "(scrollHeight c = priv_collapsedHeight this \<longrightarrow> fits (priv_updateOverflowState this)) \<and>
         (scrollHeight c = priv_calculateCollapsedHeight this \<longrightarrow>
            fits (priv_initialize this) \<and> fits (priv_onWindowResize this) \<and>
            (\<not> priv_expanded this \<longrightarrow> fits (priv_handleContentResize this)))"
proof -
  have fits_result:
    "fits ((dataset_set ''expanded'' ''false'' (dataset_set ''has-overflow'' ''false'' s))
              \<lparr> priv_expanded := False,
                content := Some (c'\<lparr>style_maxHeight := MaxNone\<rparr>),
                toggle := Some (t'\<lparr>toggle_hidden := True, aria_expanded := Some ''false''\<rparr>) \<rparr>)"
    for s c' t'
    by (simp add: fits_def dataset_set_def dataset_def)
  have stored: "fits (priv_updateOverflowState this)"
    if "scrollHeight c = priv_collapsedHeight this"
    using updateOverflowState_fits[OF refs] that fits_result by simp
  let ?fresh = "this\<lparr>priv_collapsedHeight := priv_calculateCollapsedHeight this\<rparr>"
  have fresh: "fits (priv_updateOverflowState ?fresh)"
    if "scrollHeight c = priv_calculateCollapsedHeight this"
    using updateOverflowState_fits[of ?fresh c t] refs that fits_result by simp
  have unclamp: "fits (expanded_unclamped s)" if "fits s" for s
    using that by (simp add: fits_def expanded_unclamped_def)
  have init: "fits (priv_initialize this)"
    if "scrollHeight c = priv_calculateCollapsedHeight this"
    using fresh[OF that] refs by (simp add: priv_initialize_def)
  have resize: "fits (priv_onWindowResize this)"
    if "scrollHeight c = priv_calculateCollapsedHeight this"
    using fresh[OF that] refs unclamp by (simp add: priv_onWindowResize_def)
  have observed: "fits (priv_handleContentResize this)"
    if eq: "scrollHeight c = priv_calculateCollapsedHeight this" and closed: "\<not> priv_expanded this"
  proof (cases "priv_calculateCollapsedHeight this > 0 \<and>
                \<bar>priv_calculateCollapsedHeight this - priv_collapsedHeight this\<bar> > 1")
    case True
    let ?c = "c\<lparr>style_maxHeight := MaxPx (priv_calculateCollapsedHeight this)\<rparr>"
    let ?s = "this\<lparr> priv_collapsedHeight := priv_calculateCollapsedHeight this,
                    content := Some ?c \<rparr>"
    have "fits (priv_updateOverflowState ?s)"
      using updateOverflowState_fits[of ?s ?c t] refs eq fits_result by simp
    then show ?thesis
      using True closed refs unclamp by (simp add: priv_handleContentResize_def Let_def)
  next
    case False
    have "scrollHeight c \<le> priv_collapsedHeight this + 1 \<or> priv_collapsedHeight this \<le> 0"
      using False eq calculateCollapsedHeight_nonneg[of this] by auto
    from updateOverflowState_fits[OF refs this] have "fits (priv_updateOverflowState this)"
      using fits_result by simp
    then show ?thesis
      using False closed refs unclamp by (auto simp: priv_handleContentResize_def Let_def)
  qed
  show ?thesis using stored init resize observed by blast
qed

theorem ProductDescriptionBlock_exact_fit_not_overflowing_witness:
  "priv_calculateCollapsedHeight fitting_block = 100 \<and>
   map_option scrollHeight (content fitting_block) = Some 100 \<and>
   map_option toggle_hidden (toggle fitting_block) = Some False \<and>
   map_option toggle_hidden (toggle (priv_initialize fitting_block)) = Some True \<and>
   dataset (priv_initialize fitting_block) ''has-overflow'' = Some ''false'' \<and>
   \<not> priv_expanded (priv_initialize fitting_block) \<and>
   map_option style_maxHeight (content (priv_initialize fitting_block)) = Some MaxNone \<and>
   map_option toggle_hidden (toggle (priv_handleContentResize fitting_block)) = Some True \<and>
   map_option toggle_hidden
     (toggle (priv_updateOverflowState (fitting_block\<lparr>priv_collapsedHeight := 100\<rparr>))) = Some True"
proof -
  let ?c = "\<lparr> scrollHeight = 100, offsetHeight = 100, scrollTop = 0, style_maxHeight = MaxUnset,
              textElement = Some \<lparr> lineHeight = Px 20, fontSize = Px 16 \<rparr> \<rparr>"
  let ?t = "\<lparr> toggle_hidden = False, aria_expanded = None \<rparr>"
  have c: "content fitting_block = Some ?c" and t: "toggle fitting_block = Some ?t"
    by (simp_all add: fitting_block_def)
  have h: "priv_calculateCollapsedHeight fitting_block = 100"
    by (simp add: priv_calculateCollapsedHeight_def fitting_block_def parseFloat_def)
  have closed: "\<not> priv_expanded fitting_block"
    by (simp add: fitting_block_def)
  have c': "content (fitting_block\<lparr>priv_collapsedHeight := 100\<rparr>) = Some ?c"
    and t': "toggle (fitting_block\<lparr>priv_collapsedHeight := 100\<rparr>) = Some ?t"
    by (simp_all add: fitting_block_def)
  from ProductDescriptionBlock_exact_fit_not_overflowing[OF c t]
       ProductDescriptionBlock_exact_fit_not_overflowing[OF c' t'] h closed c t
  show ?thesis by simp
qed

subsection \<open>Header: the trigger button and the drawer\<close>

lemma updateButtonState_idem: "updateButtonState (updateButtonState doc) = updateButtonState doc"
  by (auto simp: updateButtonState_def Let_def split: option.splits)

lemma funpow_idem: "f (f x) = f x \<Longrightarrow> (f ^^ Suc k) x = f x"
  by (induction k) simp_all

text \<open>
  After a toggle event the button follows the drawer: \<open>aria-expanded\<close> is \<open>"true"\<close>
  exactly when the details element is open, and when both icons exist the open icon is
  hidden and the close icon shown for an open drawer, and the other way round for a
  closed one.
\<close>

lemma MKHeaderComponent_toggle_syncs_button:
  assumes "menuButton doc = Some button" "drawerDetails doc = Some isOpen"
    and "0 < toggleListeners doc"
  shows "map_option button_aria_expanded (menuButton (details_toggle_event doc))
           = Some (Some (if isOpen then ''true'' else ''false'')) \<and>
         (openIcon button \<noteq> None \<and> closeIcon button \<noteq> None \<longrightarrow>
            map_option openIcon (menuButton (details_toggle_event doc))
              = Some (Some (if isOpen then ''none'' else ''block'')) \<and>
            map_option closeIcon (menuButton (details_toggle_event doc))
              = Some (Some (if isOpen then ''block'' else ''none'')))"
proof -
  have "details_toggle_event doc = updateButtonState doc"
    unfolding details_toggle_event_def
    using assms(3) funpow_idem[of updateButtonState doc "toggleListeners doc - 1"]
    by (simp add: updateButtonState_idem)
  then show ?thesis
    using assms by (auto simp: updateButtonState_def Let_def)
qed

text \<open>
  C9, at initialisation. When the header, the button with both icons, the details
  element and its \<open>header-drawer\<close> are all there, \<open>#initMobileMenu\<close> leaves
  \<open>aria-expanded\<close> in step with the drawer, and then sets the open icon to \<open>block\<close>
  and the close icon to \<open>none\<close> whatever the drawer's state: for a drawer that is
  open at that moment the icons show the closed state.
\<close>

theorem MKHeaderComponent_init_forces_closed_icons:
  assumes "headerComponent doc" "menuButton doc = Some button" "drawerDetails doc = Some isOpen"
    and "headerDrawer doc" "openIcon button \<noteq> None" "closeIcon button \<noteq> None"
  shows "map_option button_aria_expanded (menuButton (MKHeaderComponent_initMobileMenu doc))
           = Some (Some (if isOpen then ''true'' else ''false'')) \<and>
         map_option openIcon (menuButton (MKHeaderComponent_initMobileMenu doc))
           = Some (Some ''block'') \<and>
         map_option closeIcon (menuButton (MKHeaderComponent_initMobileMenu doc))
           = Some (Some ''none'') \<and>
         drawerDetails (MKHeaderComponent_initMobileMenu doc) = Some isOpen"
  using assms
  by (auto simp: MKHeaderComponent_initMobileMenu_def updateButtonState_def Let_def)

theorem MKHeaderComponent_init_forces_closed_icons_witness:
  "drawerDetails (MKHeaderComponent_initMobileMenu (header_markup True)) = Some True \<and>
   map_option button_aria_expanded (menuButton (MKHeaderComponent_initMobileMenu (header_markup True)))
     = Some (Some ''true'') \<and>
   map_option openIcon (menuButton (MKHeaderComponent_initMobileMenu (header_markup True)))
     = Some (Some ''block'') \<and>
   map_option closeIcon (menuButton (MKHeaderComponent_initMobileMenu (header_markup True)))
     = Some (Some ''none'')"
proof -
  let ?button = "\<lparr> button_aria_expanded = Some ''false'', openIcon = Some [], closeIcon = Some [] \<rparr>"
  have a: "headerComponent (header_markup True)" "menuButton (header_markup True) = Some ?button"
    "drawerDetails (header_markup True) = Some True" "headerDrawer (header_markup True)"
    "openIcon ?button \<noteq> None" "closeIcon ?button \<noteq> None"
    by (simp_all add: header_markup_def)
  from MKHeaderComponent_init_forces_closed_icons[OF a]
  show ?thesis by simp
qed

end
